theory Spec2Isabelle
  imports Complex_Main "HOL-Library.Sublist" "HOL-Library.Code_Target_Numeral"
begin

section \<open>MeanGPT: a shallow embedding of the orchestration core\<close>

text \<open>
  The TypeScript sources embedded here are \<^verbatim>\<open>lib/core/context-manager.ts\<close>,
  \<^verbatim>\<open>lib/core/router.ts\<close>, the orchestrator, the aggregator, the provider classes
  and the shared type declarations.

  Conventions of the embedding.
  \<^item> A JavaScript string is a \<^typ>\<open>string\<close>, a \<^typ>\<open>char\<close> being a UTF-16 code unit
    below 256 (the Latin-1 range of Unicode); \<^verbatim>\<open>substring(0, n)\<close> is \<^term>\<open>take n\<close>.
    Strings with a code unit from 256 on are outside the model. Case folding and white
    space are those of ECMAScript on this range.
  \<^item> Every \<^verbatim>\<open>new Date()\<close> and \<^verbatim>\<open>Date.now()\<close> reads a clock value that the caller
    passes in as a natural number.
  \<^item> A thrown JavaScript value is an \<open>error\<close>: an object with an optional
    \<^verbatim>\<open>message\<close>. A function that can throw returns \<open>error + 'a\<close>.
  \<^item> Network calls and SDK calls are functions of an environment record; the model
    quantifies over all of them.
\<close>

subsection \<open>Strings\<close>

fun digit_char :: "nat \<Rightarrow> char" where
  "digit_char n = ''0123456789'' ! (n mod 10)"

function show_nat :: "nat \<Rightarrow> string" where
  "show_nat n = (if n < 10 then [digit_char n] else show_nat (n div 10) @ [digit_char n])"
  by pat_completeness auto
termination
  by (relation "measure id") auto

declare show_nat.simps [simp del]

text \<open>\<^verbatim>\<open>Array.prototype.join\<close> on an array of strings.\<close>

fun join :: "string \<Rightarrow> string list \<Rightarrow> string" where
  "join sep [] = []"
| "join sep [x] = x"
| "join sep (x # y # ys) = x @ sep @ join sep (y # ys)"

text \<open>\<^verbatim>\<open>String.prototype.includes\<close>: does \<open>sub\<close> occur in \<open>s\<close> as a contiguous block.\<close>

fun str_includes :: "string \<Rightarrow> string \<Rightarrow> bool" where
  "str_includes [] sub = (sub = [])"
| "str_includes (c # cs) sub = (prefix sub (c # cs) \<or> str_includes cs sub)"

text \<open>
  \<^verbatim>\<open>String.prototype.toLowerCase\<close>: the letters \<open>A\<close> to \<open>Z\<close> and the capital
  letters U+00C0 to U+00DE (U+00D7, the multiplication sign, is not one) go to the code
  unit 32 above them.
\<close>

definition toLowerChar :: "char \<Rightarrow> char" where
  "toLowerChar c =
     (case map_of (zip (''ABCDEFGHIJKLMNOPQRSTUVWXYZ'' @
                        [CHR 0xC0, CHR 0xC1, CHR 0xC2, CHR 0xC3, CHR 0xC4, CHR 0xC5, CHR 0xC6,
                         CHR 0xC7, CHR 0xC8, CHR 0xC9, CHR 0xCA, CHR 0xCB, CHR 0xCC, CHR 0xCD,
                         CHR 0xCE, CHR 0xCF, CHR 0xD0, CHR 0xD1, CHR 0xD2, CHR 0xD3, CHR 0xD4,
                         CHR 0xD5, CHR 0xD6, CHR 0xD8, CHR 0xD9, CHR 0xDA, CHR 0xDB, CHR 0xDC,
                         CHR 0xDD, CHR 0xDE])
                       (''abcdefghijklmnopqrstuvwxyz'' @
                        [CHR 0xE0, CHR 0xE1, CHR 0xE2, CHR 0xE3, CHR 0xE4, CHR 0xE5, CHR 0xE6,
                         CHR 0xE7, CHR 0xE8, CHR 0xE9, CHR 0xEA, CHR 0xEB, CHR 0xEC, CHR 0xED,
                         CHR 0xEE, CHR 0xEF, CHR 0xF0, CHR 0xF1, CHR 0xF2, CHR 0xF3, CHR 0xF4,
                         CHR 0xF5, CHR 0xF6, CHR 0xF8, CHR 0xF9, CHR 0xFA, CHR 0xFB, CHR 0xFC,
                         CHR 0xFD, CHR 0xFE])) c of
        Some d \<Rightarrow> d
      | None \<Rightarrow> c)"

definition toLowerCase :: "string \<Rightarrow> string" where
  "toLowerCase s = map toLowerChar s"

text \<open>
  What \<^verbatim>\<open>String.prototype.trim\<close> strips: the white space and the line terminators of
  ECMAScript. Below 256 these are the space, the tab, the line feed, the vertical tab, the
  form feed, the carriage return and the no-break space U+00A0.
\<close>

definition isSpace :: "char \<Rightarrow> bool" where
  "isSpace c =
     (c \<in> set [CHR '' '', CHR 0x09, CHR 0x0A, CHR 0x0B, CHR 0x0C, CHR 0x0D, CHR 0xA0])"

definition trim :: "string \<Rightarrow> string" where
  "trim s = rev (dropWhile isSpace (rev (dropWhile isSpace s)))"

text \<open>\<^verbatim>\<open>s.split('\n')\<close>: the segments between line feeds, at least one.\<close>

fun split_lines :: "string \<Rightarrow> string list" where
  "split_lines [] = [[]]"
| "split_lines (c # cs) =
     (if c = CHR 0x0A then [] # split_lines cs
      else (case split_lines cs of
              [] \<Rightarrow> [[c]]
            | l # ls \<Rightarrow> (c # l) # ls))"

subsection \<open>Shared types\<close>

datatype role = System | User | Assistant

definition role_name :: "role \<Rightarrow> string" where
  "role_name r = (case r of System \<Rightarrow> ''system'' | User \<Rightarrow> ''user'' | Assistant \<Rightarrow> ''assistant'')"

record Message =
  role :: role
  content :: string
  timestamp :: "nat option"

record AIProvider =
  name :: string
  displayName :: string
  model :: string

text \<open>
  \<^verbatim>\<open>AIResponse\<close>; its \<^verbatim>\<open>content\<close> and \<^verbatim>\<open>timestamp\<close> fields are named
  \<open>rcontent\<close> and \<open>rtimestamp\<close> here, apart from those of \<open>Message\<close>.
\<close>

record AIResponse =
  provider :: AIProvider
  rcontent :: string
  error :: "string option"
  rtimestamp :: nat
  tokensUsed :: "nat option"

record AggregatedResponse =
  responses :: "AIResponse list"
  summary :: "string \<rightharpoonup> string"
  meanAnswer :: "string option"
  bestAnswer :: "string option"
  atimestamp :: nat

text \<open>
  \<^verbatim>\<open>ConversationContext\<close>. The object \<^verbatim>\<open>aiContexts\<close> is a map from property names to
  message arrays; reading a property it does not have yields \<^verbatim>\<open>undefined\<close>.
\<close>

record ConversationContext =
  cid :: string
  messages :: "Message list"
  aiContexts :: "string \<rightharpoonup> Message list"
  createdAt :: nat
  updatedAt :: nat

text \<open>A thrown value, with the \<^verbatim>\<open>message\<close> property the handlers read.\<close>

datatype error = Error (message: "string option")

subsection \<open>File storage\<close>

text \<open>
  \<^verbatim>\<open>FileStorageManager\<close> as far as the context manager uses it: one directory per
  conversation, one file per provider context and one master file. Writes are taken to
  succeed; a file that is missing or unreadable loads as the empty list.
\<close>

record FileStorageManager =
  dirs :: "string set"
  providerFiles :: "string \<times> string \<rightharpoonup> Message list"
  masterFiles :: "string \<rightharpoonup> Message list"

definition saveProviderContext ::
  "FileStorageManager \<Rightarrow> string \<Rightarrow> string \<Rightarrow> Message list \<Rightarrow> FileStorageManager" where
  "saveProviderContext fs conversationId p msgs =
     fs\<lparr>dirs := insert conversationId (dirs fs),
        providerFiles := (providerFiles fs)((conversationId, p) \<mapsto> msgs)\<rparr>"

definition loadProviderContext :: "FileStorageManager \<Rightarrow> string \<Rightarrow> string \<Rightarrow> Message list" where
  "loadProviderContext fs conversationId p =
     (case providerFiles fs (conversationId, p) of None \<Rightarrow> [] | Some msgs \<Rightarrow> msgs)"

definition loadMeanGPTMaster :: "FileStorageManager \<Rightarrow> string \<Rightarrow> Message list" where
  "loadMeanGPTMaster fs conversationId =
     (case masterFiles fs conversationId of None \<Rightarrow> [] | Some msgs \<Rightarrow> msgs)"

definition conversationExists :: "FileStorageManager \<Rightarrow> string \<Rightarrow> bool" where
  "conversationExists fs conversationId = (conversationId \<in> dirs fs)"

subsection \<open>ContextManager\<close>

record ContextManager =
  conversations :: "string \<rightharpoonup> ConversationContext"
  fileStorage :: FileStorageManager
  isServerless :: bool

definition maxMessagesPerContext :: nat where
  "maxMessagesPerContext = 20"

text \<open>The constructor: no conversation in memory.\<close>

definition new_ContextManager :: "FileStorageManager \<Rightarrow> bool \<Rightarrow> ContextManager" where
  "new_ContextManager fs serverless =
     \<lparr>conversations = Map.empty, fileStorage = fs, isServerless = serverless\<rparr>"

text \<open>
  \<^verbatim>\<open>generateId\<close>: \<open>rnd\<close> is the nine characters cut from \<^verbatim>\<open>Math.random().toString(36)\<close>.
\<close>

definition generateId :: "nat \<Rightarrow> string \<Rightarrow> string" where
  "generateId now rnd = ''conv_'' @ show_nat now @ ''_'' @ rnd"

text \<open>
  \<^verbatim>\<open>createConversation(id?)\<close>. In \<^verbatim>\<open>id || this.generateId()\<close> both a missing id and
  the empty string select the generated id.
\<close>

definition createConversation ::
  "ContextManager \<Rightarrow> nat \<Rightarrow> string \<Rightarrow> string option \<Rightarrow> ConversationContext \<times> ContextManager" where
  "createConversation cm now rnd ident =
     (let conversationId =
            (case ident of
               None \<Rightarrow> generateId now rnd
             | Some i \<Rightarrow> if i = [] then generateId now rnd else i);
          context = \<lparr>cid = conversationId,
                     messages = [],
                     aiContexts = [''openai'' \<mapsto> [], ''anthropic'' \<mapsto> [],
                                   ''gemini'' \<mapsto> [], ''grok'' \<mapsto> []],
                     createdAt = now,
                     updatedAt = now\<rparr>
      in (context, cm\<lparr>conversations := (conversations cm)(conversationId \<mapsto> context)\<rparr>))"

definition getConversation :: "ContextManager \<Rightarrow> string \<Rightarrow> ConversationContext option" where
  "getConversation cm ident = conversations cm ident"

definition createSummary :: "Message list \<Rightarrow> string" where
  "createSummary msgs =
     (let topics = join '', '' (map (\<lambda>m. take 50 (content m)) (filter (\<lambda>m. role m = User) msgs))
      in ''Topics discussed: '' @ topics)"

text \<open>
  \<^verbatim>\<open>splice(0, toRemove)\<close> takes the first \<open>toRemove\<close> entries out of the array and
  returns them; \<^verbatim>\<open>unshift\<close> puts the summary in front of what is left.
\<close>

definition trimContextIfNeeded :: "ConversationContext \<Rightarrow> ConversationContext" where
  "trimContextIfNeeded conversation =
     (if length (messages conversation) > maxMessagesPerContext then
        (let toRemove = length (messages conversation) - maxMessagesPerContext;
             removed = take toRemove (messages conversation);
             summary = createSummary removed
         in conversation\<lparr>messages :=
              \<lparr>role = System, content = ''Previous conversation summary: '' @ summary,
               timestamp = None\<rparr> # drop toRemove (messages conversation)\<rparr>)
      else conversation)"

definition trimAIContextIfNeeded :: "Message list \<Rightarrow> Message list" where
  "trimAIContextIfNeeded msgs =
     (if length msgs > maxMessagesPerContext then
        (let toRemove = length msgs - maxMessagesPerContext;
             removed = take toRemove msgs;
             summary = createSummary removed
         in \<lparr>role = System, content = ''Previous context summary: '' @ summary,
             timestamp = None\<rparr> # drop toRemove msgs)
      else msgs)"

definition notFound :: "string \<Rightarrow> error" where
  "notFound conversationId = Error (Some (''Conversation '' @ conversationId @ '' not found''))"

definition addMessage ::
  "ContextManager \<Rightarrow> nat \<Rightarrow> string \<Rightarrow> Message \<Rightarrow> error + ContextManager" where
  "addMessage cm now conversationId msg =
     (case conversations cm conversationId of
        None \<Rightarrow> Inl (notFound conversationId)
      | Some conversation \<Rightarrow>
          Inr (cm\<lparr>conversations := (conversations cm)(conversationId \<mapsto>
                 trimContextIfNeeded
                   (conversation\<lparr>messages := messages conversation @ [msg],
                                 updatedAt := now\<rparr>))\<rparr>))"

text \<open>
  \<^verbatim>\<open>addAIMessage\<close>. \<^verbatim>\<open>conversation.aiContexts[provider].push\<close> on a property the object
  does not have is a TypeError, thrown before anything is changed.
\<close>

definition noSuchProperty :: "string \<Rightarrow> error" where
  "noSuchProperty p = Error (Some (''Cannot read properties of undefined: '' @ p))"

definition addAIMessage ::
  "ContextManager \<Rightarrow> nat \<Rightarrow> string \<Rightarrow> string \<Rightarrow> Message \<Rightarrow> error + ContextManager" where
  "addAIMessage cm now conversationId p msg =
     (case conversations cm conversationId of
        None \<Rightarrow> Inl (notFound conversationId)
      | Some conversation \<Rightarrow>
          (case aiContexts conversation p of
             None \<Rightarrow> Inl (noSuchProperty p)
           | Some msgs \<Rightarrow>
               (let msgs' = trimAIContextIfNeeded (msgs @ [msg]);
                    conversation' = conversation\<lparr>aiContexts := (aiContexts conversation)(p \<mapsto> msgs'),
                                                  updatedAt := now\<rparr>;
                    cm' = cm\<lparr>conversations := (conversations cm)(conversationId \<mapsto> conversation')\<rparr>
                in Inr (if isServerless cm then cm'
                        else cm'\<lparr>fileStorage :=
                               saveProviderContext (fileStorage cm) conversationId p msgs'\<rparr>))))"

text \<open>
  \<^verbatim>\<open>loadConversationFromStorage\<close>: rebuilds the conversation from the files and puts it
  in memory.
\<close>

definition loadConversationFromStorage ::
  "ContextManager \<Rightarrow> nat \<Rightarrow> string \<Rightarrow> ConversationContext \<times> ContextManager" where
  "loadConversationFromStorage cm now conversationId =
     (let fs = fileStorage cm;
          conversation =
            \<lparr>cid = conversationId,
             messages = loadMeanGPTMaster fs conversationId,
             aiContexts = [''openai'' \<mapsto> loadProviderContext fs conversationId ''openai'',
                           ''anthropic'' \<mapsto> loadProviderContext fs conversationId ''anthropic'',
                           ''gemini'' \<mapsto> loadProviderContext fs conversationId ''gemini'',
                           ''grok'' \<mapsto> loadProviderContext fs conversationId ''grok''],
             createdAt = now,
             updatedAt = now\<rparr>
      in (conversation, cm\<lparr>conversations := (conversations cm)(conversationId \<mapsto> conversation)\<rparr>))"

text \<open>The lookup both readers start with: memory first, then the files unless serverless.\<close>

definition lookupOrLoad ::
  "ContextManager \<Rightarrow> nat \<Rightarrow> string \<Rightarrow> ConversationContext option \<times> ContextManager" where
  "lookupOrLoad cm now conversationId =
     (case conversations cm conversationId of
        Some conversation \<Rightarrow> (Some conversation, cm)
      | None \<Rightarrow>
          if \<not> isServerless cm \<and> conversationExists (fileStorage cm) conversationId
          then (let (conversation, cm') = loadConversationFromStorage cm now conversationId
                in (Some conversation, cm'))
          else (None, cm))"

definition assistantSystemPrompt :: Message where
  "assistantSystemPrompt =
     \<lparr>role = System,
      content = ''You are a helpful AI assistant. Provide clear, accurate, and concise responses.'',
      timestamp = None\<rparr>"

definition getMessagesForProvider ::
  "ContextManager \<Rightarrow> nat \<Rightarrow> string \<Rightarrow> string \<Rightarrow> bool \<Rightarrow> (error + Message list) \<times> ContextManager" where
  "getMessagesForProvider cm now conversationId p includeSystemPrompt =
     (let (conversation, cm') = lookupOrLoad cm now conversationId;
          msgs = (if includeSystemPrompt then [assistantSystemPrompt] else [])
      in (case conversation of
            None \<Rightarrow> (Inr msgs, cm')
          | Some c \<Rightarrow>
              (case aiContexts c p of
                 None \<Rightarrow> (Inl (noSuchProperty p), cm')
               | Some own \<Rightarrow> (Inr (msgs @ own), cm'))))"

text \<open>
  The master system prompt. The template literal is written twice in the source, its
  continuation lines indented by ten blanks where the conversation is unknown and by
  eight where it is known.
\<close>

definition masterPromptText :: "string \<Rightarrow> string" where
  "masterPromptText indent =
     ''You are MeanGPT, an AI orchestrator that manages responses from multiple AI providers (OpenAI, Anthropic, Gemini, and Grok). \<newline>'' @
     indent @ ''Your role is to:\<newline>'' @
     indent @ ''1. Analyze user questions to determine if they need to be forwarded to other AIs\<newline>'' @
     indent @ ''2. Summarize responses from multiple AIs\<newline>'' @
     indent @ ''3. Provide mean/average answers when appropriate\<newline>'' @
     indent @ ''4. Select the best answer based on accuracy and completeness\<newline>'' @
     indent @ ''5. Handle follow-up questions intelligently''"

definition masterSystemPrompt :: "string \<Rightarrow> Message" where
  "masterSystemPrompt indent =
     \<lparr>role = System, content = masterPromptText indent, timestamp = None\<rparr>"

definition getMasterContext ::
  "ContextManager \<Rightarrow> nat \<Rightarrow> string \<Rightarrow> Message list \<times> ContextManager" where
  "getMasterContext cm now conversationId =
     (let (conversation, cm') = lookupOrLoad cm now conversationId
      in (case conversation of
            None \<Rightarrow> ([masterSystemPrompt (replicate 10 CHR '' '')], cm')
          | Some c \<Rightarrow> (masterSystemPrompt (replicate 8 CHR '' '') # messages c, cm')))"

subsection \<open>The outside world\<close>

text \<open>
  What a provider's transport is asked. \<open>req_system\<close> is Anthropic's separate system
  text, \<open>req_current\<close> the message Gemini's chat sends after its history; the others
  leave them empty.
\<close>

record request =
  req_model :: string
  req_system :: "string option"
  req_messages :: "(string \<times> string) list"
  req_current :: "string option"
  req_temperature :: "rat option"
  req_max_tokens :: "nat option"
  req_stream :: "bool option"

text \<open>
  What comes back. \<open>choice_content\<close> is \<^verbatim>\<open>choices[0]?.message?.content\<close>, absent when
  the chain of optional reads ends in \<^verbatim>\<open>undefined\<close>; a body without \<^verbatim>\<open>choices\<close> where
  the code reads \<^verbatim>\<open>data.choices[0]\<close> counts as a body that failed to decode.
\<close>

record completion =
  choice_content :: "string option"
  total_tokens :: "nat option"

datatype content_block = TextBlock string | OtherBlock

record anthropic_message =
  blocks :: "content_block list"
  input_tokens :: nat
  output_tokens :: nat

record http_response =
  ok :: bool
  status :: nat
  statusText :: string
  body :: "error + completion"

text \<open>
  The value \<^verbatim>\<open>JSON.parse\<close> returns, as far as the router reads it: \<^verbatim>\<open>null\<close>, or a value
  with its \<^verbatim>\<open>decision\<close>, \<^verbatim>\<open>providers\<close> and \<^verbatim>\<open>reason\<close> properties (a number, a string
  or an array has none of the three; \<^verbatim>\<open>providers: null\<close> reads as absent).
\<close>

datatype json = JsonNull | JsonValue "string option" "string list option" "string option"

text \<open>
  The environment. The three prompt templates are fixed texts around the values
  interpolated into them, so each of those calls is a function of the interpolated values:
  \<open>routing_fetch\<close> of the context summary and the user message, \<open>mean_create\<close> of all
  responses and the question, \<open>best_create\<close> of the valid responses and the question.
  \<open>gemini_send\<close> takes the number of the attempt; a timeout is one of its errors.
  \<open>Number_toString\<close> is the text the host prints for a finite number from \<open>10 ^ 21\<close> on.
\<close>

record env =
  now :: nat
  rnd :: string
  openai_create :: "request \<Rightarrow> error + completion"
  anthropic_create :: "request \<Rightarrow> error + anthropic_message"
  gemini_send :: "nat \<Rightarrow> request \<Rightarrow> error + string"
  grok_fetch :: "request \<Rightarrow> error + http_response"
  routing_fetch :: "string \<Rightarrow> string \<Rightarrow> error + http_response"
  JSON_parse :: "string \<Rightarrow> error + json"
  mean_create :: "AIResponse list \<Rightarrow> string \<Rightarrow> error + completion"
  best_create :: "AIResponse list \<Rightarrow> string \<Rightarrow> error + completion"
  Number_toString :: "rat \<Rightarrow> string"

text \<open>The calls a turn makes, in the order it makes them.\<close>

datatype event = ClassificationCall | ProviderCall string | AggregatorCall

subsection \<open>The routing decision\<close>

record routing =
  shouldForward :: bool
  providers :: "string list option"
  reason :: "string option"

definition contextSummary :: "Message list \<Rightarrow> string" where
  "contextSummary msgs =
     join ''\<newline>''
       (map (\<lambda>msg. role_name (role msg) @ '': '' @ take 200 (content msg) @
                    (if length (content msg) > 200 then ''...'' else []))
            (drop (length msgs - 6) msgs))"

text \<open>The \<^verbatim>\<open>try\<close> block of \<^verbatim>\<open>shouldForwardToAIs\<close>; \<open>Inl\<close> is what its \<^verbatim>\<open>catch\<close> receives.\<close>

definition classify :: "env \<Rightarrow> Message list \<Rightarrow> string \<Rightarrow> error + routing" where
  "classify e msgs userMessage =
     (case routing_fetch e (contextSummary msgs) userMessage of
        Inl err \<Rightarrow> Inl err
      | Inr response \<Rightarrow>
          if \<not> ok response
          then Inl (Error (Some (''OpenAI API error: '' @ show_nat (status response))))
          else
            (case body response of
               Inl err \<Rightarrow> Inl err
             | Inr data \<Rightarrow>
                 (case choice_content data of
                    None \<Rightarrow> Inl (Error (Some ''No routing response received''))
                  | Some routingResponse \<Rightarrow>
                      if routingResponse = []
                      then Inl (Error (Some ''No routing response received''))
                      else
                        (case JSON_parse e (trim routingResponse) of
                           Inl err \<Rightarrow> Inl err
                         | Inr JsonNull \<Rightarrow>
                             Inl (Error (Some ''Cannot read properties of null (reading decision)''))
                         | Inr (JsonValue decision ps r) \<Rightarrow>
                             Inr \<lparr>shouldForward = (decision \<noteq> Some ''DIRECT_REPLY''),
                                  providers = ps,
                                  reason = r\<rparr>))))"

definition fallbackRouting :: "string \<Rightarrow> routing" where
  "fallbackRouting userMessage =
     (let lowerMessage = toLowerCase userMessage
      in if str_includes lowerMessage ''meangpt'' \<or> str_includes lowerMessage ''mean gpt'' \<or>
            str_includes lowerMessage ''what is your name'' \<or>
            str_includes lowerMessage ''who are you''
         then \<lparr>shouldForward = False, providers = None,
               reason = Some ''Fallback: Direct MeanGPT interaction detected''\<rparr>
         else \<lparr>shouldForward = True, providers = None,
               reason = Some ''Fallback: General question routing''\<rparr>)"

definition firstMessageRouting :: routing where
  "firstMessageRouting =
     \<lparr>shouldForward = True, providers = None,
      reason = Some ''First message in conversation - getting comprehensive responses''\<rparr>"

text \<open>
  \<^verbatim>\<open>shouldForwardToAIs\<close> reads the conversation from memory only. It returns the decision
  and the calls it made.
\<close>

definition shouldForwardToAIs ::
  "env \<Rightarrow> ContextManager \<Rightarrow> string \<Rightarrow> string \<Rightarrow> routing \<times> event list" where
  "shouldForwardToAIs e cm conversationId userMessage =
     (case conversations cm conversationId of
        None \<Rightarrow> (firstMessageRouting, [])
      | Some conversation \<Rightarrow>
          if length (messages conversation) = 0 then (firstMessageRouting, [])
          else
            (case classify e (messages conversation) userMessage of
               Inr decision \<Rightarrow> (decision, [ClassificationCall])
             | Inl err \<Rightarrow> (fallbackRouting userMessage, [ClassificationCall])))"

subsection \<open>Providers\<close>

datatype provider_kind = OpenAI | Anthropic | Gemini | Grok

text \<open>
  \<^verbatim>\<open>BaseAIProvider\<close> and its four subclasses: \<open>kind\<close> is the class of the object, which
  selects the \<^verbatim>\<open>sendMessage\<close> that runs.
\<close>

record BaseAIProvider =
  kind :: provider_kind
  apiKey :: string
  pmodel :: string
  pprovider :: AIProvider

definition OpenAIProvider :: "string \<Rightarrow> string \<Rightarrow> BaseAIProvider" where
  "OpenAIProvider key m =
     \<lparr>kind = OpenAI, apiKey = key, pmodel = m,
      pprovider = \<lparr>name = ''openai'', displayName = ''OpenAI ChatGPT'', model = m\<rparr>\<rparr>"

definition AnthropicProvider :: "string \<Rightarrow> string \<Rightarrow> BaseAIProvider" where
  "AnthropicProvider key m =
     \<lparr>kind = Anthropic, apiKey = key, pmodel = m,
      pprovider = \<lparr>name = ''anthropic'', displayName = ''Anthropic Claude'', model = m\<rparr>\<rparr>"

definition GeminiProvider :: "string \<Rightarrow> string \<Rightarrow> BaseAIProvider" where
  "GeminiProvider key m =
     \<lparr>kind = Gemini, apiKey = key, pmodel = m,
      pprovider = \<lparr>name = ''gemini'', displayName = ''Google Gemini'', model = m\<rparr>\<rparr>"

definition GrokProvider :: "string \<Rightarrow> string \<Rightarrow> BaseAIProvider" where
  "GrokProvider key m =
     \<lparr>kind = Grok, apiKey = key, pmodel = m,
      pprovider = \<lparr>name = ''grok'', displayName = ''xAI Grok'', model = m\<rparr>\<rparr>"

text \<open>
  The options of \<^verbatim>\<open>sendMessage\<close>: each field may be missing, and the whole argument may
  be missing, in which case the default parameter value stands in.
\<close>

record send_options =
  temperature :: "rat option"
  maxTokens :: "nat option"
  stream :: "bool option"

definition default_options :: send_options where
  "default_options = \<lparr>temperature = Some (7 / 10), maxTokens = Some 4000, stream = Some False\<rparr>"

definition effective_options :: "send_options option \<Rightarrow> send_options" where
  "effective_options opts = (case opts of None \<Rightarrow> default_options | Some opt \<Rightarrow> opt)"

text \<open>\<^verbatim>\<open>s || d\<close> on an optional string: absent and empty both give \<open>d\<close>.\<close>

definition or_else :: "string option \<Rightarrow> string \<Rightarrow> string" where
  "or_else s d = (case s of None \<Rightarrow> d | Some t \<Rightarrow> if t = [] then d else t)"

definition handleError :: "env \<Rightarrow> BaseAIProvider \<Rightarrow> error \<Rightarrow> AIResponse" where
  "handleError e p err =
     \<lparr>provider = pprovider p,
      rcontent = [],
      error = Some (or_else (message err) ''Unknown error occurred''),
      rtimestamp = now e,
      tokensUsed = None\<rparr>"

definition success :: "env \<Rightarrow> BaseAIProvider \<Rightarrow> string \<Rightarrow> nat option \<Rightarrow> AIResponse" where
  "success e p text tokens =
     \<lparr>provider = pprovider p, rcontent = text, error = None, rtimestamp = now e,
      tokensUsed = tokens\<rparr>"

definition formatMessages :: "Message list \<Rightarrow> (string \<times> string) list" where
  "formatMessages msgs = map (\<lambda>msg. (role_name (role msg), content msg)) msgs"

text \<open>
  \<^verbatim>\<open>OpenAIProvider.sendMessage\<close>, given how \<^verbatim>\<open>client.chat.completions.create\<close> ended.
\<close>

definition OpenAI_respond ::
  "env \<Rightarrow> BaseAIProvider \<Rightarrow> send_options \<Rightarrow> error + completion \<Rightarrow> AIResponse" where
  "OpenAI_respond e p opt outcome =
     (case outcome of
        Inl err \<Rightarrow> handleError e p err
      | Inr response \<Rightarrow>
          if stream opt = Some True
          then success e p ''Streaming not yet implemented'' None
          else success e p (or_else (choice_content response) []) (total_tokens response))"

definition OpenAI_request :: "BaseAIProvider \<Rightarrow> Message list \<Rightarrow> send_options \<Rightarrow> request" where
  "OpenAI_request p msgs opt =
     \<lparr>req_model = pmodel p, req_system = None, req_messages = formatMessages msgs,
      req_current = None, req_temperature = temperature opt,
      req_max_tokens = maxTokens opt, req_stream = stream opt\<rparr>"

text \<open>
  \<^verbatim>\<open>AnthropicProvider.sendMessage\<close>. \<^verbatim>\<open>response.content[0].type\<close> on an empty content
  array is a TypeError inside the \<^verbatim>\<open>try\<close>.
\<close>

definition Anthropic_formatMessages :: "Message list \<Rightarrow> (string \<times> string) list" where
  "Anthropic_formatMessages msgs =
     map (\<lambda>msg. (if role msg = Assistant then ''assistant'' else ''user'', content msg))
         (filter (\<lambda>msg. role msg \<noteq> System) msgs)"

definition Anthropic_request :: "BaseAIProvider \<Rightarrow> Message list \<Rightarrow> send_options \<Rightarrow> request" where
  "Anthropic_request p msgs opt =
     \<lparr>req_model = pmodel p,
      req_system = map_option content (List.find (\<lambda>m. role m = System) msgs),
      req_messages = Anthropic_formatMessages (filter (\<lambda>m. role m \<noteq> System) msgs),
      req_current = None,
      req_temperature = temperature opt,
      req_max_tokens = (case maxTokens opt of None \<Rightarrow> Some 4000
                        | Some n \<Rightarrow> if n = 0 then Some 4000 else Some n),
      req_stream = None\<rparr>"

definition Anthropic_try :: "error + anthropic_message \<Rightarrow> error + string \<times> nat" where
  "Anthropic_try outcome =
     (case outcome of
        Inl err \<Rightarrow> Inl err
      | Inr response \<Rightarrow>
          (case blocks response of
             [] \<Rightarrow> Inl (Error (Some ''Cannot read properties of undefined (reading type)''))
           | TextBlock t # _ \<Rightarrow> Inr (t, input_tokens response + output_tokens response)
           | OtherBlock # _ \<Rightarrow> Inr ([], input_tokens response + output_tokens response)))"

definition Anthropic_respond ::
  "env \<Rightarrow> BaseAIProvider \<Rightarrow> error + anthropic_message \<Rightarrow> AIResponse" where
  "Anthropic_respond e p outcome =
     (case Anthropic_try outcome of
        Inl err \<Rightarrow> handleError e p err
      | Inr (t, tokens) \<Rightarrow> success e p t (Some tokens))"

text \<open>\<^verbatim>\<open>GrokProvider.sendMessage\<close>: a \<^verbatim>\<open>fetch\<close>, a status check, a JSON body.\<close>

definition Grok_try :: "error + http_response \<Rightarrow> error + completion" where
  "Grok_try outcome =
     (case outcome of
        Inl err \<Rightarrow> Inl err
      | Inr response \<Rightarrow>
          if \<not> ok response
          then Inl (Error (Some (''Grok API error: '' @ show_nat (status response) @ '' '' @
                                 statusText response)))
          else body response)"

definition Grok_respond :: "env \<Rightarrow> BaseAIProvider \<Rightarrow> error + http_response \<Rightarrow> AIResponse" where
  "Grok_respond e p outcome =
     (case Grok_try outcome of
        Inl err \<Rightarrow> handleError e p err
      | Inr data \<Rightarrow> success e p (or_else (choice_content data) []) (total_tokens data))"

text \<open>
  \<^verbatim>\<open>GeminiProvider.sendMessage\<close>. \<^verbatim>\<open>formatMessagesForGemini\<close> pops the last message off a
  copy; the rest without system messages is the history, and the first system message of
  the whole list is put in front of the popped message's text.
\<close>

definition formatMessagesForGemini :: "Message list \<Rightarrow> (string \<times> string) list \<times> string" where
  "formatMessagesForGemini msgs =
     (let allMessages = butlast msgs;
          lastContent = (if msgs = [] then [] else content (last msgs));
          history = map (\<lambda>msg. (if role msg = Assistant then ''model'' else ''user'', content msg))
                        (filter (\<lambda>msg. role msg \<noteq> System) allMessages);
          currentMessage =
            (case List.find (\<lambda>m. role m = System) msgs of
               Some systemMessage \<Rightarrow> content systemMessage @ ''\<newline>\<newline>'' @ lastContent
             | None \<Rightarrow> lastContent)
      in (history, currentMessage))"

definition Gemini_request :: "BaseAIProvider \<Rightarrow> Message list \<Rightarrow> send_options \<Rightarrow> request" where
  "Gemini_request p msgs opt =
     (let (history, currentMessage) = formatMessagesForGemini msgs
      in \<lparr>req_model = pmodel p, req_system = None, req_messages = history,
          req_current = Some currentMessage, req_temperature = temperature opt,
          req_max_tokens = maxTokens opt, req_stream = None\<rparr>)"

definition maxRetries :: nat where
  "maxRetries = 2"

definition isOverloaded :: "error \<Rightarrow> bool" where
  "isOverloaded err =
     (case message err of
        None \<Rightarrow> False
      | Some m \<Rightarrow> str_includes m ''503'' \<or> str_includes m ''overloaded'')"

text \<open>
  The retry loop, from \<open>attempt\<close> on, with the error of the attempt before. Leaving the
  loop by its condition with no error recorded would hand \<^verbatim>\<open>undefined\<close> to
  \<^verbatim>\<open>handleError\<close>, whose read of \<^verbatim>\<open>error.message\<close> then throws.
\<close>

function Gemini_loop ::
  "env \<Rightarrow> BaseAIProvider \<Rightarrow> request \<Rightarrow> nat \<Rightarrow> error option \<Rightarrow> error + AIResponse" where
  "Gemini_loop e p req attempt lastError =
     (if attempt \<le> maxRetries then
        (case gemini_send e attempt req of
           Inr text \<Rightarrow> Inr (success e p text None)
         | Inl err \<Rightarrow>
             if isOverloaded err \<and> attempt < maxRetries
             then Gemini_loop e p req (attempt + 1) (Some err)
             else Inr (handleError e p err))
      else
        (case lastError of
           None \<Rightarrow> Inl (Error (Some ''Cannot read properties of undefined (reading message)''))
         | Some err \<Rightarrow> Inr (handleError e p err)))"
  by pat_completeness auto
termination
  by (relation "measure (\<lambda>(e, p, req, attempt, lastError). Suc maxRetries - attempt)") auto

declare Gemini_loop.simps [simp del]

text \<open>\<^verbatim>\<open>provider.sendMessage(messages, options)\<close>, dispatched on the class.\<close>

definition sendMessage ::
  "env \<Rightarrow> BaseAIProvider \<Rightarrow> Message list \<Rightarrow> send_options option \<Rightarrow> error + AIResponse" where
  "sendMessage e p msgs opts =
     (let opt = effective_options opts
      in case kind p of
           OpenAI \<Rightarrow> Inr (OpenAI_respond e p opt (openai_create e (OpenAI_request p msgs opt)))
         | Anthropic \<Rightarrow> Inr (Anthropic_respond e p (anthropic_create e (Anthropic_request p msgs opt)))
         | Gemini \<Rightarrow> Gemini_loop e p (Gemini_request p msgs opt) 1 None
         | Grok \<Rightarrow> Inr (Grok_respond e p (grok_fetch e (OpenAI_request p msgs opt))))"

subsection \<open>AIOrchestrator\<close>

text \<open>The environment variables the constructors read; an empty value counts as unset.\<close>

record process_env =
  OPENAI_API_KEY :: "string option"
  ANTHROPIC_API_KEY :: "string option"
  GEMINI_API_KEY :: "string option"
  GROK_API_KEY :: "string option"
  OPENAI_MODEL :: "string option"
  ANTHROPIC_MODEL :: "string option"
  GEMINI_MODEL :: "string option"
  GROK_MODEL :: "string option"

text \<open>
  The \<^verbatim>\<open>Map\<close> of configured providers, as the list of its entries in insertion order.
\<close>

type_synonym provider_map = "(string \<times> BaseAIProvider) list"

definition configured ::
  "string option \<Rightarrow> string \<Rightarrow> (string \<Rightarrow> BaseAIProvider) \<Rightarrow> provider_map" where
  "configured key n mk =
     (case key of
        None \<Rightarrow> []
      | Some k \<Rightarrow> if k = [] then [] else [(n, mk k)])"

definition initializeProviders :: "process_env \<Rightarrow> provider_map" where
  "initializeProviders penv =
     configured (OPENAI_API_KEY penv) ''openai''
       (\<lambda>k. OpenAIProvider k (or_else (OPENAI_MODEL penv) ''gpt-4o-mini'')) @
     configured (ANTHROPIC_API_KEY penv) ''anthropic''
       (\<lambda>k. AnthropicProvider k (or_else (ANTHROPIC_MODEL penv) ''claude-3-5-sonnet-20241022'')) @
     configured (GEMINI_API_KEY penv) ''gemini''
       (\<lambda>k. GeminiProvider k (or_else (GEMINI_MODEL penv) ''gemini-1.5-flash'')) @
     configured (GROK_API_KEY penv) ''grok''
       (\<lambda>k. GrokProvider k (or_else (GROK_MODEL penv) ''grok-2-1212''))"

record query_options =
  q_temperature :: "rat option"
  q_maxTokens :: "nat option"
  q_providers :: "string list option"

text \<open>\<^verbatim>\<open>x || d\<close> on an optional number: absent and zero both give \<open>d\<close>.\<close>

definition num_or_else :: "'a::zero option \<Rightarrow> 'a \<Rightarrow> 'a" where
  "num_or_else x d = (case x of None \<Rightarrow> d | Some v \<Rightarrow> if v = 0 then d else v)"

definition createSummaries :: "AIResponse list \<Rightarrow> (string \<rightharpoonup> string)" where
  "createSummaries rs =
     foldl (\<lambda>summ response.
              if rcontent response \<noteq> [] then
                summ(name (provider response) \<mapsto>
                  (if length (rcontent response) > 200
                   then take 197 (rcontent response) @ ''...''
                   else rcontent response))
              else if error response \<noteq> None \<and> error response \<noteq> Some [] then
                summ(name (provider response) \<mapsto> ''Error: '' @ the (error response))
              else summ)
           Map.empty rs"

text \<open>
  The entries \<^verbatim>\<open>queryAllProviders\<close> calls: with a \<^verbatim>\<open>providers\<close> option, the configured
  entries whose name the option lists; without one, all of them.
\<close>

definition activeProviders :: "provider_map \<Rightarrow> query_options option \<Rightarrow> provider_map" where
  "activeProviders provs options =
     (case Option.bind options q_providers of
        Some ps \<Rightarrow> filter (\<lambda>(n, p). n \<in> set ps) provs
      | None \<Rightarrow> provs)"

text \<open>
  \<^verbatim>\<open>Promise.allSettled\<close> gives one outcome per call, in the order of the calls; the
  fulfilled values are collected first, then one entry per rejected call.
\<close>

definition rejectedResponse :: "env \<Rightarrow> BaseAIProvider \<Rightarrow> error \<Rightarrow> AIResponse" where
  "rejectedResponse e p err =
     \<lparr>provider = pprovider p, rcontent = [],
      error = Some (or_else (message err) ''Unknown error''),
      rtimestamp = now e, tokensUsed = None\<rparr>"

definition queryAllProviders ::
  "env \<Rightarrow> provider_map \<Rightarrow> Message list \<Rightarrow> query_options option \<Rightarrow>
   AggregatedResponse \<times> event list" where
  "queryAllProviders e provs msgs options =
     (let active = activeProviders provs options;
          opt = \<lparr>temperature = Some (num_or_else (Option.bind options q_temperature) (7 / 10)),
                 maxTokens = Some (num_or_else (Option.bind options q_maxTokens) 4000),
                 stream = Some False\<rparr>;
          settled = map (\<lambda>(n, p). (p, sendMessage e p msgs (Some opt))) active;
          successfulResponses = concat (map (\<lambda>(p, result).
                                    case result of Inr v \<Rightarrow> [v] | Inl err \<Rightarrow> []) settled);
          failedResponses = concat (map (\<lambda>(p, result).
                                    case result of Inr v \<Rightarrow> []
                                    | Inl err \<Rightarrow> [rejectedResponse e p err]) settled);
          allResponses = successfulResponses @ failedResponses
      in (\<lparr>responses = allResponses,
           summary = createSummaries allResponses,
           meanAnswer = None,
           bestAnswer = None,
           atimestamp = now e\<rparr>,
          map (\<lambda>(n, p). ProviderCall n) active))"

definition notConfigured :: "env \<Rightarrow> string \<Rightarrow> AIResponse" where
  "notConfigured e providerName =
     \<lparr>provider = \<lparr>name = providerName, displayName = providerName, model = ''unknown''\<rparr>,
      rcontent = [],
      error = Some (''Provider '' @ providerName @ '' not configured''),
      rtimestamp = now e,
      tokensUsed = None\<rparr>"

definition querySingleProvider ::
  "env \<Rightarrow> provider_map \<Rightarrow> string \<Rightarrow> Message list \<Rightarrow> send_options option \<Rightarrow>
   (error + AIResponse) \<times> event list" where
  "querySingleProvider e provs providerName msgs options =
     (case map_of provs providerName of
        None \<Rightarrow> (Inr (notConfigured e providerName), [])
      | Some p \<Rightarrow> (sendMessage e p msgs options, [ProviderCall providerName]))"

definition getAvailableProviders :: "provider_map \<Rightarrow> string list" where
  "getAvailableProviders provs = map fst provs"

subsection \<open>ResponseAggregator\<close>

text \<open>
  JavaScript numbers are IEEE 754 doubles. Only values that are not negative arise here,
  so a \<open>number\<close> is a rational that is a double, \<^verbatim>\<open>Infinity\<close> or \<^verbatim>\<open>NaN\<close>.
  \<open>binary64 x\<close> is the Number value for a rational \<open>x \<ge> 0\<close>: \<open>x\<close> rounded to the nearest
  multiple of the spacing of the doubles around it (\<open>2 ^ (e - 52)\<close> for
  \<open>2 ^ e \<le> x < 2 ^ (e + 1)\<close>, and \<open>2 ^ - 1074\<close> below \<open>2 ^ - 1022\<close>), a tie going to the
  even multiple, and \<^verbatim>\<open>Infinity\<close> when the rounded value reaches \<open>2 ^ 1024\<close>.
\<close>

datatype number = Num rat | PosInfinity | NaN

definition pow2 :: "int \<Rightarrow> rat" where
  "pow2 k = (if 0 \<le> k then 2 ^ nat k else 1 / 2 ^ nat (- k))"

function bit_length :: "nat \<Rightarrow> nat" where
  "bit_length n = (if n = 0 then 0 else Suc (bit_length (n div 2)))"
  by pat_completeness auto
termination
  by (relation "measure id") auto

declare bit_length.simps [simp del]

text \<open>For \<open>x > 0\<close>, the \<open>e\<close> with \<open>2 ^ e \<le> x < 2 ^ (e + 1)\<close>.\<close>

definition ilog2 :: "rat \<Rightarrow> int" where
  "ilog2 x =
     (if 1 \<le> x then int (bit_length (nat \<lfloor>x\<rfloor>)) - 1
      else - int (bit_length (nat (\<lceil>1 / x\<rceil> - 1))))"

definition round_half_even :: "rat \<Rightarrow> int" where
  "round_half_even m =
     (let f = \<lfloor>m\<rfloor>; d = m - of_int f
      in if d < 1 / 2 then f else if 1 / 2 < d then f + 1 else if even f then f else f + 1)"

definition binary64 :: "rat \<Rightarrow> number" where
  "binary64 x =
     (if x \<le> 0 then Num 0
      else (let e = max (ilog2 x) (- 1022);
                q = pow2 (e - 52);
                y = of_int (round_half_even (x / q)) * q
            in if pow2 1024 \<le> y then PosInfinity else Num y))"

text \<open>\<^verbatim>\<open>a + b\<close>, \<^verbatim>\<open>a / n\<close> for an array length \<open>n\<close>, and \<^verbatim>\<open>a > 0\<close>, on these numbers.\<close>

definition number_add :: "number \<Rightarrow> number \<Rightarrow> number" where
  "number_add a b =
     (case (a, b) of
        (Num x, Num y) \<Rightarrow> binary64 (x + y)
      | (NaN, _) \<Rightarrow> NaN
      | (_, NaN) \<Rightarrow> NaN
      | _ \<Rightarrow> PosInfinity)"

definition number_div :: "number \<Rightarrow> nat \<Rightarrow> number" where
  "number_div a n =
     (case a of
        Num x \<Rightarrow> if n = 0 then (if x = 0 then NaN else PosInfinity) else binary64 (x / of_nat n)
      | PosInfinity \<Rightarrow> PosInfinity
      | NaN \<Rightarrow> NaN)"

definition number_gt0 :: "number \<Rightarrow> bool" where
  "number_gt0 a = (case a of Num x \<Rightarrow> 0 < x | PosInfinity \<Rightarrow> True | NaN \<Rightarrow> False)"

definition isDigit :: "char \<Rightarrow> bool" where
  "isDigit c = (c \<in> set ''0123456789'')"

definition isDigitOrComma :: "char \<Rightarrow> bool" where
  "isDigitOrComma c = (isDigit c \<or> c = CHR '','')"

text \<open>
  \<^verbatim>\<open>/^\$?[\d,]+\.?\d*$/.test(s)\<close>: an optional dollar sign, a non-empty run of digits and
  commas, an optional point, digits, and nothing else. Taking the longest run of digits
  and commas loses no match, since only digits may follow a shorter one.
\<close>

definition numericPattern :: "string \<Rightarrow> bool" where
  "numericPattern s =
     (let s1 = (case s of c # cs \<Rightarrow> if c = CHR ''$'' then cs else s | [] \<Rightarrow> s);
          run = takeWhile isDigitOrComma s1;
          rest = dropWhile isDigitOrComma s1
      in run \<noteq> [] \<and>
         (case rest of
            [] \<Rightarrow> True
          | c # cs \<Rightarrow> c = CHR ''.'' \<and> list_all isDigit cs))"

definition areNumericResponses :: "string list \<Rightarrow> bool" where
  "areNumericResponses contents =
     list_all (\<lambda>c. let trimmed = trim c
                   in numericPattern trimmed \<or>
                      list_ex (\<lambda>line. numericPattern (trim line)) (split_lines trimmed))
              contents"

text \<open>
  \<^verbatim>\<open>content.match(/\$?([\d,]+\.?\d*)/)\<close>: the group of the leftmost match starts at the
  first digit or comma of the string (a dollar sign in front of it belongs to the match,
  not to the group) and takes the run of digits and commas, a point if one follows, and the
  digits after it. There is no match when the string has no digit and no comma.
\<close>

definition firstNumericToken :: "string \<Rightarrow> string option" where
  "firstNumericToken s =
     (let s1 = dropWhile (\<lambda>c. \<not> isDigitOrComma c) s;
          run = takeWhile isDigitOrComma s1;
          rest = dropWhile isDigitOrComma s1
      in if s1 = [] then None
         else Some (case rest of
                      [] \<Rightarrow> run
                    | c # cs \<Rightarrow> if c = CHR ''.'' then run @ [c] @ takeWhile isDigit cs else run))"

definition digit_value :: "char \<Rightarrow> nat" where
  "digit_value c = of_char c - 48"

definition digits_value :: "string \<Rightarrow> nat" where
  "digits_value ds = foldl (\<lambda>acc c. 10 * acc + digit_value c) 0 ds"

text \<open>
  \<^verbatim>\<open>parseFloat\<close> on the strings it is given here (digits with at most one point, the
  commas being removed before the call; no sign, no exponent, no white space): the longest
  prefix that is a decimal literal, read as a decimal and rounded to the nearest double,
  and \<^verbatim>\<open>NaN\<close> when there is no digit before or right after the point.
\<close>

definition parseFloat :: "string \<Rightarrow> number" where
  "parseFloat s =
     (let ip = takeWhile isDigit s;
          rest = dropWhile isDigit s;
          fp = (case rest of [] \<Rightarrow> [] | c # cs \<Rightarrow> if c = CHR ''.'' then takeWhile isDigit cs else [])
      in if ip = [] \<and> fp = [] then NaN
         else binary64 (of_nat (digits_value ip) + of_nat (digits_value fp) / 10 ^ length fp))"

text \<open>
  \<^verbatim>\<open>x.toFixed(2)\<close> for \<open>x\<close> not negative, by the steps of \<^verbatim>\<open>Number.prototype.toFixed\<close>:
  a value that is not finite prints as \<^verbatim>\<open>Number::toString\<close> prints it, and so does one
  from \<open>10 ^ 21\<close> on; otherwise \<open>n\<close> is the integer nearest to \<open>100 * x\<close> (the larger one
  of two), its decimal digits are padded with zeros on the left to three, and the point
  goes in front of the last two. The exponent notation \<^verbatim>\<open>Number::toString\<close> produces from
  \<open>10 ^ 21\<close> on is left to the host by ECMAScript where several digit strings qualify, so
  it is the function \<open>Number_toString\<close> of the environment.
\<close>

definition toFixed2 :: "env \<Rightarrow> number \<Rightarrow> string" where
  "toFixed2 e a =
     (case a of
        NaN \<Rightarrow> ''NaN''
      | PosInfinity \<Rightarrow> ''Infinity''
      | Num x \<Rightarrow>
          if 10 ^ 21 \<le> x then Number_toString e x
          else (let n = nat \<lfloor>x * 100 + 1 / 2\<rfloor>;
                    m = show_nat n;
                    m = replicate (3 - length m) CHR ''0'' @ m;
                    k = length m
                in take (k - 2) m @ ''.'' @ drop (k - 2) m))"

text \<open>
  \<^verbatim>\<open>calculateNumericMean\<close>: a content without a match counts as 0, the filter
  \<^verbatim>\<open>n > 0\<close> then drops every 0 and every \<^verbatim>\<open>NaN\<close>, and \<^verbatim>\<open>reduce\<close> adds what is left
  from the left, starting at 0.
\<close>

definition extractNumber :: "string \<Rightarrow> number" where
  "extractNumber c =
     (case firstNumericToken c of
        Some tok \<Rightarrow> parseFloat (filter (\<lambda>ch. ch \<noteq> CHR '','') tok)
      | None \<Rightarrow> Num 0)"

definition calculateNumericMean :: "env \<Rightarrow> string list \<Rightarrow> string" where
  "calculateNumericMean e contents =
     (let numbers = filter number_gt0 (map extractNumber contents)
      in if length numbers = 0 then ''Unable to calculate mean''
         else (let mean = number_div (foldl number_add (Num 0) numbers) (length numbers)
               in ''Mean value: $'' @ toFixed2 e mean))"

text \<open>A string that is present and not empty, as a JavaScript condition sees it.\<close>

definition truthy :: "string option \<Rightarrow> bool" where
  "truthy s = (case s of None \<Rightarrow> False | Some t \<Rightarrow> t \<noteq> [])"

definition simpleAverage :: "env \<Rightarrow> AIResponse list \<Rightarrow> string" where
  "simpleAverage e rs =
     (let contents = filter (\<lambda>c. c \<noteq> []) (map rcontent rs)
      in if areNumericResponses contents then calculateNumericMean e contents
         else ''Combined response from '' @ show_nat (length rs) @ '' AIs:\<newline>\<newline>'' @
              join ''\<newline>\<newline>''
                (map (\<lambda>r. displayName (provider r) @ '': '' @ rcontent r) rs))"

text \<open>
  The aggregator's own synthesis provider, \<^verbatim>\<open>meanGPT\<close>: an OpenAI provider when the key
  is set, \<^verbatim>\<open>null\<close> otherwise.
\<close>

record ResponseAggregator =
  meanGPT :: "BaseAIProvider option"

definition new_ResponseAggregator :: "process_env \<Rightarrow> ResponseAggregator" where
  "new_ResponseAggregator penv =
     \<lparr>meanGPT = (case OPENAI_API_KEY penv of
                   None \<Rightarrow> None
                 | Some k \<Rightarrow> if k = [] then None else Some (OpenAIProvider k ''gpt-4o-mini''))\<rparr>"

definition synthesis_options :: send_options where
  "synthesis_options = \<lparr>temperature = Some (3 / 10), maxTokens = Some 8000, stream = Some False\<rparr>"

text \<open>
  \<^verbatim>\<open>this.meanGPT.sendMessage\<close> on a synthesis prompt, given how the completion call
  ended. It is the OpenAI \<^verbatim>\<open>sendMessage\<close>, which returns in both cases.
\<close>

definition meanGPT_sendMessage ::
  "env \<Rightarrow> BaseAIProvider \<Rightarrow> error + completion \<Rightarrow> error + AIResponse" where
  "meanGPT_sendMessage e p outcome = Inr (OpenAI_respond e p synthesis_options outcome)"

definition calculateMeanAnswer ::
  "env \<Rightarrow> ResponseAggregator \<Rightarrow> AIResponse list \<Rightarrow> string \<Rightarrow> AIResponse list \<Rightarrow> string" where
  "calculateMeanAnswer e agg rs originalQuestion allResponses =
     (case meanGPT agg of
        None \<Rightarrow> simpleAverage e rs
      | Some p \<Rightarrow>
          (case meanGPT_sendMessage e p (mean_create e allResponses originalQuestion) of
             Inr result \<Rightarrow> if rcontent result \<noteq> [] then rcontent result else simpleAverage e rs
           | Inl err \<Rightarrow> simpleAverage e rs))"

text \<open>\<^verbatim>\<open>responses[0].content\<close>; on an empty array the read throws.\<close>

definition firstContent :: "AIResponse list \<Rightarrow> error + string" where
  "firstContent rs =
     (case rs of
        [] \<Rightarrow> Inl (Error (Some ''Cannot read properties of undefined (reading content)''))
      | r # _ \<Rightarrow> Inr (rcontent r))"

definition selectBestAnswer ::
  "env \<Rightarrow> ResponseAggregator \<Rightarrow> AIResponse list \<Rightarrow> string \<Rightarrow> error + string" where
  "selectBestAnswer e agg rs originalQuestion =
     (case meanGPT agg of
        None \<Rightarrow> firstContent rs
      | Some p \<Rightarrow>
          (case meanGPT_sendMessage e p (best_create e rs originalQuestion) of
             Inr result \<Rightarrow> if rcontent result \<noteq> [] then Inr (rcontent result) else firstContent rs
           | Inl err \<Rightarrow> firstContent rs))"

definition isValid :: "AIResponse \<Rightarrow> bool" where
  "isValid r = (rcontent r \<noteq> [] \<and> \<not> truthy (error r))"

definition analyzeResponses ::
  "env \<Rightarrow> ResponseAggregator \<Rightarrow> AggregatedResponse \<Rightarrow> string \<Rightarrow> error + AggregatedResponse" where
  "analyzeResponses e agg aggregatedResponse originalQuestion =
     (let validResponses = filter isValid (responses aggregatedResponse)
      in if length validResponses = 0 then
           Inr (aggregatedResponse\<lparr>meanAnswer := Some ''All AI providers failed to respond.'',
                                    bestAnswer := Some ''No responses available.''\<rparr>)
         else if length validResponses = 1 then
           (let singleResponseAnswer =
                  calculateMeanAnswer e agg validResponses originalQuestion
                    (responses aggregatedResponse)
            in Inr (aggregatedResponse\<lparr>meanAnswer := Some singleResponseAnswer,
                                        bestAnswer := Some (rcontent (hd validResponses))\<rparr>))
         else
           (let mean = calculateMeanAnswer e agg validResponses originalQuestion
                         (responses aggregatedResponse)
            in case selectBestAnswer e agg validResponses originalQuestion of
                 Inl err \<Rightarrow> Inl err
               | Inr best \<Rightarrow>
                   Inr (aggregatedResponse\<lparr>meanAnswer := Some mean, bestAnswer := Some best\<rparr>)))"

definition createFormattedResponse :: "AggregatedResponse \<Rightarrow> string" where
  "createFormattedResponse aggregated =
     ''## AI Responses Summary\<newline>\<newline>'' @
     concat (map (\<lambda>r. ''### '' @ displayName (provider r) @ ''\<newline>'' @
                       (if truthy (error r)
                        then ''*Error: '' @ the (error r) @ ''*\<newline>\<newline>''
                        else rcontent r @ ''\<newline>\<newline>''))
                 (responses aggregated)) @
     (if truthy (meanAnswer aggregated)
      then ''---\<newline>\<newline>## Mean Answer\<newline>'' @ the (meanAnswer aggregated) @ ''\<newline>\<newline>''
      else []) @
     (if truthy (bestAnswer aggregated) \<and> bestAnswer aggregated \<noteq> meanAnswer aggregated
      then ''## Best Answer\<newline>'' @ the (bestAnswer aggregated) @ ''\<newline>\<newline>''
      else [])"

subsection \<open>MeanGPTRouter\<close>

record MeanGPTRouter =
  contextManager :: ContextManager
  orchestrator :: provider_map
  aggregator :: ResponseAggregator

definition new_MeanGPTRouter :: "process_env \<Rightarrow> FileStorageManager \<Rightarrow> bool \<Rightarrow> MeanGPTRouter" where
  "new_MeanGPTRouter penv fs serverless =
     \<lparr>contextManager = new_ContextManager fs serverless,
      orchestrator = initializeProviders penv,
      aggregator = new_ResponseAggregator penv\<rparr>"

text \<open>What \<^verbatim>\<open>processMessage\<close> resolves to.\<close>

record turn_result =
  response :: string
  conversationId :: string
  decision :: routing
  aggregatedData :: "AggregatedResponse option"

definition userTurn :: "string \<Rightarrow> Message" where
  "userTurn userMessage = \<lparr>role = User, content = userMessage, timestamp = None\<rparr>"

text \<open>
  \<^verbatim>\<open>handleDirectResponse\<close>: the master context and the message go to the one provider
  \<^verbatim>\<open>'openai'\<close>. Returns the text (or what was thrown), the context manager and the calls.
\<close>

definition handleDirectResponse ::
  "env \<Rightarrow> MeanGPTRouter \<Rightarrow> ContextManager \<Rightarrow> string \<Rightarrow> string \<Rightarrow>
   (error + string) \<times> ContextManager \<times> event list" where
  "handleDirectResponse e r cm convId userMessage =
     (let (context, cm') = getMasterContext cm (now e) convId;
          msgs = context @ [userTurn userMessage];
          (directResponse, calls) = querySingleProvider e (orchestrator r) ''openai'' msgs None
      in case directResponse of
           Inl err \<Rightarrow> (Inl err, cm', calls)
         | Inr d \<Rightarrow>
             if truthy (error d)
             then (Inr (''MeanGPT: I encountered an error processing your request: '' @
                        the (error d)), cm', calls)
             else (Inr (rcontent d), cm', calls))"

text \<open>
  The loop at the end of \<^verbatim>\<open>handleAIForwarding\<close>: for each targeted provider the user turn
  goes into its own context, and the assistant turn too when its response is found and
  carries no error. A throw leaves the loop with the context manager as it was then.
\<close>

fun addProviderTurns ::
  "env \<Rightarrow> string \<Rightarrow> string \<Rightarrow> AIResponse list \<Rightarrow> string list \<Rightarrow> ContextManager \<Rightarrow>
   error option \<times> ContextManager" where
  "addProviderTurns e convId userMessage rs [] cm = (None, cm)"
| "addProviderTurns e convId userMessage rs (p # ps) cm =
     (case addAIMessage cm (now e) convId p (userTurn userMessage) of
        Inl err \<Rightarrow> (Some err, cm)
      | Inr cm1 \<Rightarrow>
          (case List.find (\<lambda>resp. name (provider resp) = p) rs of
             None \<Rightarrow> addProviderTurns e convId userMessage rs ps cm1
           | Some providerResponse \<Rightarrow>
               if truthy (error providerResponse)
               then addProviderTurns e convId userMessage rs ps cm1
               else
                 (case addAIMessage cm1 (now e) convId p
                         \<lparr>role = Assistant, content = rcontent providerResponse,
                          timestamp = None\<rparr> of
                    Inl err \<Rightarrow> (Some err, cm1)
                  | Inr cm2 \<Rightarrow> addProviderTurns e convId userMessage rs ps cm2)))"

text \<open>
  \<^verbatim>\<open>handleAIForwarding\<close>. \<^verbatim>\<open>activeProviders[0]\<close> of an empty array is \<^verbatim>\<open>undefined\<close>, which
  as a property name reads \<^verbatim>\<open>'undefined'\<close>.
\<close>

definition handleAIForwarding ::
  "env \<Rightarrow> MeanGPTRouter \<Rightarrow> ContextManager \<Rightarrow> string \<Rightarrow> string \<Rightarrow> string list option \<Rightarrow>
   (error + AggregatedResponse) \<times> ContextManager \<times> event list" where
  "handleAIForwarding e r cm convId userMessage specificProviders =
     (let active = (case specificProviders of
                      None \<Rightarrow> [''openai'', ''anthropic'', ''gemini'', ''grok'']
                    | Some ps \<Rightarrow> ps);
          primaryProvider = (case active of [] \<Rightarrow> ''undefined'' | p # _ \<Rightarrow> p);
          (context, cm1) = getMessagesForProvider cm (now e) convId primaryProvider True
      in case context of
           Inl err \<Rightarrow> (Inl err, cm1, [])
         | Inr ctx \<Rightarrow>
             (let msgs = ctx @ [userTurn userMessage];
                  (result, calls) =
                    queryAllProviders e (orchestrator r) msgs
                      (Some \<lparr>q_temperature = Some (7 / 10), q_maxTokens = Some 4000,
                             q_providers = Some active\<rparr>);
                  (thrown, cm2) = addProviderTurns e convId userMessage (responses result) active cm1
              in case thrown of
                   Some err \<Rightarrow> (Inl err, cm2, calls)
                 | None \<Rightarrow> (Inr result, cm2, calls)))"

text \<open>
  \<^verbatim>\<open>processMessage\<close>. Returns what the promise settles to, the router with its context
  manager as the turn left it, and the calls of the turn.
\<close>

definition processMessage ::
  "env \<Rightarrow> MeanGPTRouter \<Rightarrow> string \<Rightarrow> string \<Rightarrow>
   (error + turn_result) \<times> MeanGPTRouter \<times> event list" where
  "processMessage e r convId userMessage =
     (let cm0 = contextManager r;
          cm1 = (case getConversation cm0 convId of
                   None \<Rightarrow> snd (createConversation cm0 (now e) (rnd e) (Some convId))
                 | Some conversation \<Rightarrow> cm0);
          userMsg = \<lparr>role = User, content = userMessage, timestamp = Some (now e)\<rparr>
      in case addMessage cm1 (now e) convId userMsg of
           Inl err \<Rightarrow> (Inl err, r\<lparr>contextManager := cm1\<rparr>, [])
         | Inr cm2 \<Rightarrow>
             (let (rt, calls1) = shouldForwardToAIs e cm2 convId userMessage
              in if \<not> shouldForward rt then
                   (let (direct, cm3, calls2) = handleDirectResponse e r cm2 convId userMessage
                    in case direct of
                         Inl err \<Rightarrow> (Inl err, r\<lparr>contextManager := cm3\<rparr>, calls1 @ calls2)
                       | Inr text \<Rightarrow>
                           (Inr \<lparr>response = text, conversationId = convId, decision = rt,
                                 aggregatedData = None\<rparr>,
                            r\<lparr>contextManager := cm3\<rparr>, calls1 @ calls2))
                 else
                   (let (forwarded, cm3, calls2) =
                          handleAIForwarding e r cm2 convId userMessage (providers rt)
                    in case forwarded of
                         Inl err \<Rightarrow> (Inl err, r\<lparr>contextManager := cm3\<rparr>, calls1 @ calls2)
                       | Inr aggregatedResponse \<Rightarrow>
                           (case analyzeResponses e (aggregator r) aggregatedResponse userMessage of
                              Inl err \<Rightarrow>
                                (Inl err, r\<lparr>contextManager := cm3\<rparr>,
                                 calls1 @ calls2 @ [AggregatorCall])
                            | Inr analyzedResponse \<Rightarrow>
                                (let formattedResponse = createFormattedResponse analyzedResponse;
                                     assistantMsg = \<lparr>role = Assistant, content = formattedResponse,
                                                     timestamp = Some (now e)\<rparr>
                                 in case addMessage cm3 (now e) convId assistantMsg of
                                      Inl err \<Rightarrow>
                                        (Inl err, r\<lparr>contextManager := cm3\<rparr>,
                                         calls1 @ calls2 @ [AggregatorCall])
                                    | Inr cm4 \<Rightarrow>
                                        (Inr \<lparr>response = formattedResponse,
                                              conversationId = convId,
                                              decision = rt,
                                              aggregatedData = Some analyzedResponse\<rparr>,
                                         r\<lparr>contextManager := cm4\<rparr>,
                                         calls1 @ calls2 @ [AggregatorCall]))))))"

subsection \<open>Call sequences on the context manager\<close>

text \<open>
  The three mutators as data, to speak of any sequence of calls. A call that throws does
  so before it changes anything, so the context manager stays as it was.
\<close>

datatype cm_call =
    CreateConversation "string option"
  | AddMessage string Message
  | AddAIMessage string string Message

fun call :: "env \<Rightarrow> ContextManager \<Rightarrow> cm_call \<Rightarrow> ContextManager" where
  "call e cm (CreateConversation ident) = snd (createConversation cm (now e) (rnd e) ident)"
| "call e cm (AddMessage convId msg) =
     (case addMessage cm (now e) convId msg of Inl err \<Rightarrow> cm | Inr cm' \<Rightarrow> cm')"
| "call e cm (AddAIMessage convId p msg) =
     (case addAIMessage cm (now e) convId p msg of Inl err \<Rightarrow> cm | Inr cm' \<Rightarrow> cm')"

definition calls :: "env \<Rightarrow> ContextManager \<Rightarrow> cm_call list \<Rightarrow> ContextManager" where
  "calls e cm cs = foldl (call e) cm cs"

text \<open>Every transcript and every provider context in memory has at most \<open>n\<close> entries.\<close>

definition within_cap :: "nat \<Rightarrow> ContextManager \<Rightarrow> bool" where
  "within_cap n cm =
     (\<forall>convId c. conversations cm convId = Some c \<longrightarrow>
        length (messages c) \<le> n \<and>
        (\<forall>p msgs. aiContexts c p = Some msgs \<longrightarrow> length msgs \<le> n))"

text \<open>
  The summary the claim describes: a system message that lists the first 50 characters of
  each user message among \<open>removed\<close>, joined by a comma and a blank, after a fixed label.
\<close>

definition summaryOf :: "string \<Rightarrow> Message list \<Rightarrow> Message" where
  "summaryOf label removed =
     \<lparr>role = System,
      content = label @ ''Topics discussed: '' @
                join '', '' (map (\<lambda>m. take 50 (content m)) (filter (\<lambda>m. role m = User) removed)),
      timestamp = None\<rparr>"

text \<open>What a trimmed append leaves: the summary of the oldest excess, then the newest 20.\<close>

definition trimmedTo :: "string \<Rightarrow> Message list \<Rightarrow> Message list" where
  "trimmedTo label msgs =
     summaryOf label (take (length msgs - 20) msgs) # drop (length msgs - 20) msgs"

subsection \<open>The claims' own vocabulary\<close>

text \<open>
  The classification call counts as failed when the request throws, the status is not OK,
  the body does not decode or carries no reply text, or \<^verbatim>\<open>JSON.parse\<close> rejects the reply.
\<close>

definition classification_failed :: "env \<Rightarrow> Message list \<Rightarrow> string \<Rightarrow> bool" where
  "classification_failed e msgs userMessage =
     (case routing_fetch e (contextSummary msgs) userMessage of
        Inl err \<Rightarrow> True
      | Inr resp \<Rightarrow>
          \<not> ok resp \<or>
          (case body resp of
             Inl err \<Rightarrow> True
           | Inr data \<Rightarrow>
               (case choice_content data of
                  None \<Rightarrow> True
                | Some s \<Rightarrow> s = [] \<or> isl (JSON_parse e (trim s)))))"

text \<open>The lowercased message names MeanGPT or asks who it is.\<close>

definition mentions_self :: "string \<Rightarrow> bool" where
  "mentions_self userMessage =
     list_ex (str_includes (toLowerCase userMessage))
       [''meangpt'', ''mean gpt'', ''what is your name'', ''who are you'']"

text \<open>
  The underlying call of a \<^verbatim>\<open>sendMessage\<close> counts as failed when the \<^verbatim>\<open>catch\<close> of
  the provider is what ends it: the SDK call or the \<^verbatim>\<open>fetch\<close> throws, Anthropic
  returns no content block, Grok answers with a status that is not OK or a body that
  does not decode, Gemini fails on its first attempt with an error that is not an
  overload, or fails on both attempts.
\<close>

definition call_failed :: "env \<Rightarrow> BaseAIProvider \<Rightarrow> Message list \<Rightarrow> send_options option \<Rightarrow> bool" where
  "call_failed e p msgs opts =
     (let opt = effective_options opts
      in case kind p of
           OpenAI \<Rightarrow> isl (openai_create e (OpenAI_request p msgs opt))
         | Anthropic \<Rightarrow>
             (case anthropic_create e (Anthropic_request p msgs opt) of
                Inl err \<Rightarrow> True
              | Inr m \<Rightarrow> blocks m = [])
         | Gemini \<Rightarrow>
             (case gemini_send e 1 (Gemini_request p msgs opt) of
                Inr text \<Rightarrow> False
              | Inl err \<Rightarrow> \<not> isOverloaded err \<or> isl (gemini_send e 2 (Gemini_request p msgs opt)))
         | Grok \<Rightarrow>
             (case grok_fetch e (OpenAI_request p msgs opt) of
                Inl err \<Rightarrow> True
              | Inr resp \<Rightarrow> \<not> ok resp \<or> isl (body resp)))"

text \<open>Every entry of the provider map sits under the name in its own descriptor.\<close>

definition keyed_by_name :: "provider_map \<Rightarrow> bool" where
  "keyed_by_name provs = list_all (\<lambda>(n, p). name (pprovider p) = n) provs"

text \<open>
  What \<^verbatim>\<open>/^\$?[\d,]+\.?\d*$/\<close> accepts, read off the expression: an optional dollar
  sign, a non-empty run of digits and commas, and then nothing or a point followed by
  digits only.
\<close>

definition bare_number :: "string \<Rightarrow> bool" where
  "bare_number s =
     (\<exists>d ds fs. s = d @ ds @ fs \<and> (d = [] \<or> d = ''$'') \<and>
        ds \<noteq> [] \<and> list_all isDigitOrComma ds \<and>
        (fs = [] \<or> (\<exists>ts. fs = CHR ''.'' # ts \<and> list_all isDigit ts)))"

text \<open>A content that is such a number once trimmed, or has a line that is.\<close>

definition numeric_content :: "string \<Rightarrow> bool" where
  "numeric_content c =
     (bare_number (trim c) \<or> (\<exists>line \<in> set (split_lines (trim c)). bare_number (trim line)))"

text \<open>
  The decimal a token denotes once its commas are dropped, digit by digit: the digits in
  front of the point by their powers of ten, those after it by their negative powers.
\<close>

definition decimal_value :: "string \<Rightarrow> rat" where
  "decimal_value t =
     (let ip = takeWhile (\<lambda>c. c \<noteq> CHR ''.'') t;
          fp = drop (Suc (length ip)) t
      in (\<Sum>i<length ip. of_nat (digit_value (ip ! i)) * 10 ^ (length ip - Suc i)) +
         (\<Sum>j<length fp. of_nat (digit_value (fp ! j)) / 10 ^ Suc j))"

text \<open>
  The number read from the first numeric token of a content, commas dropped: the double
  nearest to its decimal, \<^verbatim>\<open>NaN\<close> when the token has no digit, and 0 when the content
  has no token.
\<close>

definition token_number :: "string \<Rightarrow> number" where
  "token_number c =
     (case firstNumericToken c of
        None \<Rightarrow> Num 0
      | Some tok \<Rightarrow>
          (let t = filter (\<lambda>ch. ch \<noteq> CHR '','') tok
           in if list_ex isDigit t then binary64 (decimal_value t) else NaN))"

text \<open>
  The mean in double arithmetic: the sum taken from the left, starting at 0, each addition
  rounded, and divided by the count.
\<close>

definition double_mean :: "number list \<Rightarrow> number" where
  "double_mean vs = number_div (foldl number_add (Num 0) vs) (length vs)"

text \<open>A rational that is not negative, rounded to two decimals, a half going up.\<close>

definition two_decimals :: "rat \<Rightarrow> string" where
  "two_decimals x =
     (let n = nat (round (100 * x))
      in show_nat (n div 100) @ ''.'' @ [digit_char ((n div 10) mod 10), digit_char (n mod 10)])"

text \<open>
  The currency string of a mean: two decimals below \<open>10 ^ 21\<close>, and from there on the
  text the host prints for the number.
\<close>

definition currency :: "env \<Rightarrow> number \<Rightarrow> string" where
  "currency e a =
     ''Mean value: $'' @
     (case a of
        Num x \<Rightarrow> if x < 10 ^ 21 then two_decimals x else Number_toString e x
      | PosInfinity \<Rightarrow> ''Infinity''
      | NaN \<Rightarrow> ''NaN'')"

definition labelled_concatenation :: "AIResponse list \<Rightarrow> string" where
  "labelled_concatenation rs =
     ''Combined response from '' @ show_nat (length rs) @ '' AIs:\<newline>\<newline>'' @
     join ''\<newline>\<newline>'' (map (\<lambda>r. displayName (provider r) @ '': '' @ rcontent r) rs)"

text \<open>
  The synthesis provider is unavailable: there is none, its call fails, or its reply has
  no text.
\<close>

definition synthesis_unavailable ::
  "env \<Rightarrow> ResponseAggregator \<Rightarrow> string \<Rightarrow> AIResponse list \<Rightarrow> bool" where
  "synthesis_unavailable e agg q allResponses =
     (case meanGPT agg of
        None \<Rightarrow> True
      | Some p \<Rightarrow>
          (case mean_create e allResponses q of
             Inl err \<Rightarrow> True
           | Inr c \<Rightarrow> or_else (choice_content c) [] = []))"

text \<open>The notice the direct branch returns when its provider call has an error.\<close>

definition notice :: string where
  "notice = ''MeanGPT: I encountered an error processing your request: ''"

text \<open>
  The designated provider call of the direct branch errors: OpenAI is not configured, or
  its underlying call fails.
\<close>

definition direct_call_errors :: "env \<Rightarrow> provider_map \<Rightarrow> Message list \<Rightarrow> bool" where
  "direct_call_errors e provs msgs =
     (case map_of provs ''openai'' of
        None \<Rightarrow> True
      | Some p \<Rightarrow> call_failed e p msgs None)"

text \<open>
  The master transcript after \<^verbatim>\<open>addMessage\<close> of the user turn: the turn appended, and
  the oldest excess over 20 replaced by the summary message.
\<close>

definition appended :: "env \<Rightarrow> string \<Rightarrow> Message list \<Rightarrow> Message list" where
  "appended e userMessage ms =
     (let ms' = ms @ [\<lparr>role = User, content = userMessage, timestamp = Some (now e)\<rparr>]
      in if length ms' > 20 then trimmedTo ''Previous conversation summary: '' ms' else ms')"

text \<open>The first step of \<^verbatim>\<open>processMessage\<close>: create the conversation unless it is there.\<close>

definition ensured :: "env \<Rightarrow> ContextManager \<Rightarrow> string \<Rightarrow> ContextManager" where
  "ensured e cm convId =
     (case getConversation cm convId of
        None \<Rightarrow> snd (createConversation cm (now e) (rnd e) (Some convId))
      | Some conversation \<Rightarrow> cm)"

subsection \<open>Concrete worlds for the worked examples\<close>

text \<open>
  An empty disk, and an environment in which every network call fails. The one number the
  examples print in exponent notation is \<open>10 ^ 21\<close>, as \<^verbatim>\<open>1e+21\<close>.
\<close>

definition fs0 :: FileStorageManager where
  "fs0 = \<lparr>dirs = {}, providerFiles = Map.empty, masterFiles = Map.empty\<rparr>"

definition offline :: env where
  "offline =
     \<lparr>now = 0,
      rnd = ''k3j9x0q2z'',
      openai_create = (\<lambda>req. Inl (Error (Some ''fetch failed''))),
      anthropic_create = (\<lambda>req. Inl (Error (Some ''fetch failed''))),
      gemini_send = (\<lambda>attempt req. Inl (Error (Some ''fetch failed''))),
      grok_fetch = (\<lambda>req. Inl (Error (Some ''fetch failed''))),
      routing_fetch = (\<lambda>ctx msg. Inl (Error (Some ''fetch failed''))),
      JSON_parse = (\<lambda>s. Inl (Error (Some ''Unexpected end of JSON input''))),
      mean_create = (\<lambda>rs q. Inl (Error (Some ''fetch failed''))),
      best_create = (\<lambda>rs q. Inl (Error (Some ''fetch failed''))),
      Number_toString = (\<lambda>x. ''1e+21'')\<rparr>"

text \<open>Twenty user turns \<open>a\<close> to \<open>t\<close>, and a context manager holding them twice.\<close>

definition twenty :: "Message list" where
  "twenty = map (\<lambda>ch. userTurn [ch]) ''abcdefghijklmnopqrst''"

definition full_conversation :: ConversationContext where
  "full_conversation =
     \<lparr>cid = ''c1'', messages = twenty, aiContexts = [''openai'' \<mapsto> twenty],
      createdAt = 0, updatedAt = 0\<rparr>"

definition cm20 :: ContextManager where
  "cm20 = \<lparr>conversations = [''c1'' \<mapsto> full_conversation],
           fileStorage = fs0, isServerless = True\<rparr>"

text \<open>A conversation one user turn old.\<close>

definition cm1 :: ContextManager where
  "cm1 = \<lparr>conversations =
             [''c1'' \<mapsto> \<lparr>cid = ''c1'', messages = [userTurn ''What is 2+2?''],
                          aiContexts = [''openai'' \<mapsto> []], createdAt = 0, updatedAt = 0\<rparr>],
          fileStorage = fs0, isServerless = True\<rparr>"

text \<open>Provider descriptors and three fan-out results: none valid, one valid, two prices.\<close>

definition openai_desc :: AIProvider where
  "openai_desc = \<lparr>name = ''openai'', displayName = ''OpenAI ChatGPT'', model = ''gpt-4o-mini''\<rparr>"

definition grok_desc :: AIProvider where
  "grok_desc = \<lparr>name = ''grok'', displayName = ''xAI Grok'', model = ''grok-2-1212''\<rparr>"

definition answer :: "AIProvider \<Rightarrow> string \<Rightarrow> AIResponse" where
  "answer d text = \<lparr>provider = d, rcontent = text, error = None, rtimestamp = 0, tokensUsed = None\<rparr>"

definition failure :: "AIProvider \<Rightarrow> string \<Rightarrow> AIResponse" where
  "failure d msg = \<lparr>provider = d, rcontent = [], error = Some msg, rtimestamp = 0, tokensUsed = None\<rparr>"

definition fanout :: "AIResponse list \<Rightarrow> AggregatedResponse" where
  "fanout rs = \<lparr>responses = rs, summary = createSummaries rs, meanAnswer = None,
                bestAnswer = None, atimestamp = 0\<rparr>"

definition none_valid :: AggregatedResponse where
  "none_valid = fanout [failure openai_desc ''fetch failed'', failure grok_desc ''fetch failed'']"

definition one_valid :: AggregatedResponse where
  "one_valid = fanout [answer openai_desc ''Paris'', failure grok_desc ''fetch failed'']"

text \<open>An aggregator with its synthesis provider, and an environment where synthesis answers.\<close>

definition with_meanGPT :: ResponseAggregator where
  "with_meanGPT = \<lparr>meanGPT = Some (OpenAIProvider ''sk-test'' ''gpt-4o-mini'')\<rparr>"

definition synthesising :: env where
  "synthesising =
     offline\<lparr>mean_create :=
               (\<lambda>rs q. Inr \<lparr>choice_content = Some ''Consensus: Paris'', total_tokens = None\<rparr>)\<rparr>"

text \<open>A Grok provider, and three sets of environment variables.\<close>

definition grok0 :: BaseAIProvider where
  "grok0 = GrokProvider ''xai-test'' ''grok-2-1212''"

definition no_keys :: process_env where
  "no_keys = \<lparr>OPENAI_API_KEY = None, ANTHROPIC_API_KEY = None, GEMINI_API_KEY = None,
               GROK_API_KEY = None, OPENAI_MODEL = None, ANTHROPIC_MODEL = None,
               GEMINI_MODEL = None, GROK_MODEL = None\<rparr>"

definition openai_only :: process_env where
  "openai_only = no_keys\<lparr>OPENAI_API_KEY := Some ''sk-test''\<rparr>"

definition openai_and_grok :: process_env where
  "openai_and_grok = no_keys\<lparr>OPENAI_API_KEY := Some ''sk-test'', GROK_API_KEY := Some ''xai-test''\<rparr>"

text \<open>The options of a fan-out that names its providers and nothing else.\<close>

definition asking :: "string list \<Rightarrow> query_options option" where
  "asking ps = Some \<lparr>q_temperature = None, q_maxTokens = None, q_providers = Some ps\<rparr>"

text \<open>An aggregator without synthesis provider, and lists of valid responses.\<close>

definition without_meanGPT :: ResponseAggregator where
  "without_meanGPT = \<lparr>meanGPT = None\<rparr>"

definition two_prices :: "AIResponse list" where
  "two_prices = [answer openai_desc ''$10'', answer grok_desc ''$20'']"

definition free_and_ten :: "AIResponse list" where
  "free_and_ten = [answer openai_desc ''$0'', answer grok_desc ''$10'']"

definition word_and_price :: "AIResponse list" where
  "word_and_price = [answer openai_desc ''Paris'', answer grok_desc ''$20'']"

text \<open>
  Prices whose doubles are not their decimals, a price of \<open>10 ^ 21\<close>, and a price behind
  a no-break space.
\<close>

definition cent_apart :: "AIResponse list" where
  "cent_apart = [answer openai_desc ''$19.99'', answer grok_desc ''$20.00'']"

definition half_cent :: "AIResponse list" where
  "half_cent = [answer openai_desc ''1.005'']"

definition sextillion :: "AIResponse list" where
  "sextillion = [answer openai_desc ''$1,000,000,000,000,000,000,000'']"

definition padded_price :: "AIResponse list" where
  "padded_price = [answer openai_desc (CHR 0xA0 # ''$10''), answer grok_desc ''$20'']"

text \<open>
  Routers with only the OpenAI key set: over the conversation one turn old, over the one
  with twenty turns, and fresh from the constructor. Offline, \<open>Who are you?\<close> is routed
  by the fallback and answered with the error notice.
\<close>

definition router1 :: MeanGPTRouter where
  "router1 = \<lparr>contextManager = cm1, orchestrator = initializeProviders openai_only,
              aggregator = new_ResponseAggregator openai_only\<rparr>"

definition router20 :: MeanGPTRouter where
  "router20 = \<lparr>contextManager = cm20, orchestrator = initializeProviders openai_only,
               aggregator = new_ResponseAggregator openai_only\<rparr>"

definition fresh_router :: MeanGPTRouter where
  "fresh_router = new_MeanGPTRouter openai_only fs0 True"

definition direct_fallback :: routing where
  "direct_fallback = \<lparr>shouldForward = False, providers = None,
                      reason = Some ''Fallback: Direct MeanGPT interaction detected''\<rparr>"

definition error_reply :: "string \<Rightarrow> turn_result" where
  "error_reply convId =
     \<lparr>response = ''MeanGPT: I encountered an error processing your request: fetch failed'',
      conversationId = convId, decision = direct_fallback, aggregatedData = None\<rparr>"

text \<open>The context managers those routers end with after the turn \<open>Who are you?\<close>.\<close>

definition asked_first :: ContextManager where
  "asked_first =
     \<lparr>conversations =
        [''c1'' \<mapsto> \<lparr>cid = ''c1'',
                     messages = [\<lparr>role = User, content = ''Who are you?'', timestamp = Some 0\<rparr>],
                     aiContexts = [''openai'' \<mapsto> [], ''anthropic'' \<mapsto> [],
                                   ''gemini'' \<mapsto> [], ''grok'' \<mapsto> []],
                     createdAt = 0, updatedAt = 0\<rparr>],
      fileStorage = fs0, isServerless = True\<rparr>"

definition who_turn :: Message where
  "who_turn = \<lparr>role = User, content = ''Who are you?'', timestamp = Some 0\<rparr>"

definition asked_second :: ContextManager where
  "asked_second =
     \<lparr>conversations =
        [''c1'' \<mapsto> \<lparr>cid = ''c1'', messages = [userTurn ''What is 2+2?'', who_turn],
                     aiContexts = [''openai'' \<mapsto> []], createdAt = 0, updatedAt = 0\<rparr>],
      fileStorage = fs0, isServerless = True\<rparr>"

definition capped_transcript :: "Message list" where
  "capped_transcript =
     \<lparr>role = System, content = ''Previous conversation summary: Topics discussed: a'',
      timestamp = None\<rparr> #
     map (\<lambda>ch. userTurn [ch]) ''bcdefghijklmnopqrst'' @ [who_turn]"

definition asked_at_cap :: ContextManager where
  "asked_at_cap =
     \<lparr>conversations = [''c1'' \<mapsto> full_conversation\<lparr>messages := capped_transcript\<rparr>],
      fileStorage = fs0, isServerless = True\<rparr>"

section \<open>Verified properties\<close>

subsection \<open>Trimming keeps every context within the cap\<close>

lemma length_trimAI_le: "length (trimAIContextIfNeeded msgs) \<le> 21"
  by (simp add: trimAIContextIfNeeded_def maxMessagesPerContext_def Let_def)

lemma length_trim_le: "length (messages (trimContextIfNeeded c)) \<le> 21"
  by (simp add: trimContextIfNeeded_def maxMessagesPerContext_def Let_def)

lemma aiContexts_trim [simp]: "aiContexts (trimContextIfNeeded c) = aiContexts c"
  by (simp add: trimContextIfNeeded_def Let_def)

lemma trimAI_over:
  "length msgs > 20 \<Longrightarrow> trimAIContextIfNeeded msgs = trimmedTo ''Previous context summary: '' msgs"
  by (simp add: trimAIContextIfNeeded_def maxMessagesPerContext_def Let_def trimmedTo_def
      summaryOf_def createSummary_def)

lemma trimAI_under: "length msgs \<le> 20 \<Longrightarrow> trimAIContextIfNeeded msgs = msgs"
  by (simp add: trimAIContextIfNeeded_def maxMessagesPerContext_def)

lemma trim_over:
  "length (messages c) > 20 \<Longrightarrow>
   messages (trimContextIfNeeded c) = trimmedTo ''Previous conversation summary: '' (messages c)"
  by (simp add: trimContextIfNeeded_def maxMessagesPerContext_def Let_def trimmedTo_def
      summaryOf_def createSummary_def)

lemma trim_under: "length (messages c) \<le> 20 \<Longrightarrow> trimContextIfNeeded c = c"
  by (simp add: trimContextIfNeeded_def maxMessagesPerContext_def)

lemma within_cap_create:
  "within_cap 21 cm \<Longrightarrow> within_cap 21 (snd (createConversation cm t r ident))"
  by (auto simp: within_cap_def createConversation_def Let_def split: if_splits option.splits)

lemma within_cap_addMessage:
  "within_cap 21 cm \<Longrightarrow> addMessage cm t convId msg = Inr cm' \<Longrightarrow> within_cap 21 cm'"
  unfolding within_cap_def addMessage_def
  by (auto split: option.splits if_splits simp: length_trim_le)

lemma within_cap_addAIMessage:
  "within_cap 21 cm \<Longrightarrow> addAIMessage cm t convId p msg = Inr cm' \<Longrightarrow> within_cap 21 cm'"
  unfolding within_cap_def addAIMessage_def Let_def
  by (auto split: option.splits if_splits simp: length_trimAI_le)

lemma within_cap_call: "within_cap 21 cm \<Longrightarrow> within_cap 21 (call e cm c)"
  by (cases c) (auto intro: within_cap_create within_cap_addMessage within_cap_addAIMessage
      split: sum.splits)

lemma within_cap_calls: "within_cap 21 cm \<Longrightarrow> within_cap 21 (calls e cm cs)"
  unfolding calls_def by (induction cs arbitrary: cm) (auto intro: within_cap_call)

lemma within_cap_new: "within_cap n (new_ContextManager fs sl)"
  by (simp add: within_cap_def new_ContextManager_def)

text \<open>
  Claim C6. Whatever sequence of \<^verbatim>\<open>createConversation\<close>, \<^verbatim>\<open>addMessage\<close> and
  \<^verbatim>\<open>addAIMessage\<close> calls a fresh context manager has seen, every master transcript and
  every provider context holds at most 21 entries. An \<^verbatim>\<open>addMessage\<close> or \<^verbatim>\<open>addAIMessage\<close>
  on an existing conversation succeeds; when the append makes more than 20 entries, the
  oldest excess is removed and one system message is put in front that lists the first 50
  characters of each removed user message, joined by commas; otherwise the message is
  just appended.
\<close>

theorem context_trim_bound:
  "within_cap 21 (calls e (new_ContextManager fs sl) cs) \<and>
   (\<forall>c. conversations cm convId = Some c \<longrightarrow>
      (\<exists>cm' c'. addMessage cm t convId msg = Inr cm' \<and>
         conversations cm' convId = Some c' \<and>
         length (messages c') \<le> 21 \<and>
         messages c' =
           (if length (messages c @ [msg]) > 20
            then trimmedTo ''Previous conversation summary: '' (messages c @ [msg])
            else messages c @ [msg]))) \<and>
   (\<forall>c own. conversations cm convId = Some c \<and> aiContexts c p = Some own \<longrightarrow>
      (\<exists>cm' c' own'. addAIMessage cm t convId p msg = Inr cm' \<and>
         conversations cm' convId = Some c' \<and>
         aiContexts c' p = Some own' \<and>
         length own' \<le> 21 \<and>
         own' =
           (if length (own @ [msg]) > 20
            then trimmedTo ''Previous context summary: '' (own @ [msg])
            else own @ [msg])))"
proof (intro conjI allI impI)
  show "within_cap 21 (calls e (new_ContextManager fs sl) cs)"
    by (rule within_cap_calls [OF within_cap_new])
next
  fix c
  assume c: "conversations cm convId = Some c"
  let ?c1 = "c\<lparr>messages := messages c @ [msg], updatedAt := t\<rparr>"
  have add: "addMessage cm t convId msg =
      Inr (cm\<lparr>conversations := (conversations cm)(convId \<mapsto> trimContextIfNeeded ?c1)\<rparr>)"
    using c by (simp add: addMessage_def)
  have shape: "messages (trimContextIfNeeded ?c1) =
      (if length (messages c @ [msg]) > 20
       then trimmedTo ''Previous conversation summary: '' (messages c @ [msg])
       else messages c @ [msg])"
  proof (cases "length (messages c @ [msg]) > 20")
    case True
    then have "length (messages ?c1) > 20" by simp
    from trim_over [OF this] True show ?thesis by simp
  next
    case False
    then have "length (messages ?c1) \<le> 20" by simp
    from trim_under [OF this] False show ?thesis by simp
  qed
  show "\<exists>cm' c'. addMessage cm t convId msg = Inr cm' \<and>
         conversations cm' convId = Some c' \<and>
         length (messages c') \<le> 21 \<and>
         messages c' =
           (if length (messages c @ [msg]) > 20
            then trimmedTo ''Previous conversation summary: '' (messages c @ [msg])
            else messages c @ [msg])"
    using add shape length_trim_le [of ?c1] by simp
next
  fix c own
  assume h: "conversations cm convId = Some c \<and> aiContexts c p = Some own"
  have shape: "trimAIContextIfNeeded (own @ [msg]) =
      (if length (own @ [msg]) > 20
       then trimmedTo ''Previous context summary: '' (own @ [msg])
       else own @ [msg])"
    using trimAI_over [of "own @ [msg]"] trimAI_under [of "own @ [msg]"] by simp
  show "\<exists>cm' c' own'. addAIMessage cm t convId p msg = Inr cm' \<and>
         conversations cm' convId = Some c' \<and>
         aiContexts c' p = Some own' \<and>
         length own' \<le> 21 \<and>
         own' =
           (if length (own @ [msg]) > 20
            then trimmedTo ''Previous context summary: '' (own @ [msg])
            else own @ [msg])"
    using h shape length_trimAI_le [of "own @ [msg]"]
    by (cases "isServerless cm") (simp_all add: addAIMessage_def Let_def)
qed

text \<open>
  At a transcript and an OpenAI context of twenty user turns \<open>a\<close> to \<open>t\<close>, the turn \<open>u\<close>
  leaves 21 entries: a summary naming the one removed topic \<open>a\<close>, then \<open>b\<close> to \<open>u\<close>.
\<close>

theorem context_trim_bound_witness:
  "(\<exists>cm' c'. addMessage cm20 1 ''c1'' (userTurn ''u'') = Inr cm' \<and>
      conversations cm' ''c1'' = Some c' \<and>
      map content (messages c') =
        ''Previous conversation summary: Topics discussed: a'' #
        map (\<lambda>ch. [ch]) ''bcdefghijklmnopqrstu'') \<and>
   (\<exists>cm' c' own'. addAIMessage cm20 1 ''c1'' ''openai'' (userTurn ''u'') = Inr cm' \<and>
      conversations cm' ''c1'' = Some c' \<and> aiContexts c' ''openai'' = Some own' \<and>
      map content own' =
        ''Previous context summary: Topics discussed: a'' #
        map (\<lambda>ch. [ch]) ''bcdefghijklmnopqrstu'')"
proof -
  have c: "conversations cm20 ''c1'' = Some full_conversation"
    by (simp add: cm20_def)
  have m: "messages full_conversation = twenty"
    and a: "aiContexts full_conversation ''openai'' = Some twenty"
    by (simp_all add: full_conversation_def)
  note inst = context_trim_bound [of offline fs0 True "[]" cm20 "''c1''" 1 "userTurn ''u''" "''openai''"]
  from inst c m obtain cm' c' where
    "addMessage cm20 1 ''c1'' (userTurn ''u'') = Inr cm'"
    "conversations cm' ''c1'' = Some c'"
    "messages c' = (if length (twenty @ [userTurn ''u'']) > 20
            then trimmedTo ''Previous conversation summary: '' (twenty @ [userTurn ''u''])
            else twenty @ [userTurn ''u''])"
    by auto
  then have first: "\<exists>cm' c'. addMessage cm20 1 ''c1'' (userTurn ''u'') = Inr cm' \<and>
      conversations cm' ''c1'' = Some c' \<and>
      map content (messages c') =
        ''Previous conversation summary: Topics discussed: a'' #
        map (\<lambda>ch. [ch]) ''bcdefghijklmnopqrstu''"
    by (simp add: twenty_def trimmedTo_def summaryOf_def userTurn_def)
  from inst c a obtain cm'' c'' own' where
    "addAIMessage cm20 1 ''c1'' ''openai'' (userTurn ''u'') = Inr cm''"
    "conversations cm'' ''c1'' = Some c''"
    "aiContexts c'' ''openai'' = Some own'"
    "own' = (if length (twenty @ [userTurn ''u'']) > 20
            then trimmedTo ''Previous context summary: '' (twenty @ [userTurn ''u''])
            else twenty @ [userTurn ''u''])"
    by blast
  then have second: "\<exists>cm' c' own'. addAIMessage cm20 1 ''c1'' ''openai'' (userTurn ''u'') = Inr cm' \<and>
      conversations cm' ''c1'' = Some c' \<and> aiContexts c' ''openai'' = Some own' \<and>
      map content own' =
        ''Previous context summary: Topics discussed: a'' #
        map (\<lambda>ch. [ch]) ''bcdefghijklmnopqrstu''"
    by (simp add: twenty_def trimmedTo_def summaryOf_def userTurn_def)
  from first second show ?thesis by blast
qed

subsection \<open>Creating a conversation\<close>

lemma fresh_dom:
  "dom [''openai'' \<mapsto> ([]::Message list), ''anthropic'' \<mapsto> [], ''gemini'' \<mapsto> [], ''grok'' \<mapsto> []] =
     {''openai'', ''anthropic'', ''gemini'', ''grok''}"
  by auto

lemma fresh_all_empty:
  "[''openai'' \<mapsto> ([]::Message list), ''anthropic'' \<mapsto> [], ''gemini'' \<mapsto> [], ''grok'' \<mapsto> []] p = Some msgs
   \<Longrightarrow> msgs = []"
  by (simp split: if_splits)

text \<open>
  Claim C10, amended. For every non-empty id, \<^verbatim>\<open>createConversation(id)\<close> stores under
  that id a fresh conversation with an empty master transcript and the four provider
  contexts empty. Nothing else in memory changes, and whatever conversation the id had
  before is replaced without a failure. For the empty string, as for a missing id, the
  fresh conversation is stored under the generated id instead, which is not empty.
\<close>

theorem createConversation_replaces:
  assumes "ident \<noteq> []"
  shows "(\<exists>ctx. createConversation cm t r (Some ident) =
           (ctx, cm\<lparr>conversations := (conversations cm)(ident \<mapsto> ctx)\<rparr>) \<and>
         cid ctx = ident \<and> messages ctx = [] \<and>
         dom (aiContexts ctx) = {''openai'', ''anthropic'', ''gemini'', ''grok''} \<and>
         (\<forall>p msgs. aiContexts ctx p = Some msgs \<longrightarrow> msgs = [])) \<and>
     (\<exists>ctx. createConversation cm t r (Some []) =
           (ctx, cm\<lparr>conversations := (conversations cm)(generateId t r \<mapsto> ctx)\<rparr>) \<and>
         createConversation cm t r None = createConversation cm t r (Some []) \<and>
         cid ctx = generateId t r \<and> generateId t r \<noteq> [] \<and> messages ctx = [] \<and>
         dom (aiContexts ctx) = {''openai'', ''anthropic'', ''gemini'', ''grok''} \<and>
         (\<forall>p msgs. aiContexts ctx p = Some msgs \<longrightarrow> msgs = []))"
proof -
  let ?fresh = "\<lambda>i. \<lparr>cid = i, messages = [],
               aiContexts = [''openai'' \<mapsto> [], ''anthropic'' \<mapsto> [], ''gemini'' \<mapsto> [], ''grok'' \<mapsto> []],
               createdAt = t, updatedAt = t\<rparr>"
  let ?ctx = "?fresh ident"
  let ?gen = "?fresh (generateId t r)"
  have eq: "createConversation cm t r (Some ident) =
           (?ctx, cm\<lparr>conversations := (conversations cm)(ident \<mapsto> ?ctx)\<rparr>)"
    using assms by (simp add: createConversation_def Let_def)
  have d: "dom (aiContexts ?ctx) = {''openai'', ''anthropic'', ''gemini'', ''grok''}"
    using fresh_dom by simp
  have em: "\<forall>p msgs. aiContexts ?ctx p = Some msgs \<longrightarrow> msgs = []"
    using fresh_all_empty by simp
  have "cid ?ctx = ident \<and> messages ?ctx = []" by simp
  with eq d em have given: "\<exists>ctx. createConversation cm t r (Some ident) =
           (ctx, cm\<lparr>conversations := (conversations cm)(ident \<mapsto> ctx)\<rparr>) \<and>
         cid ctx = ident \<and> messages ctx = [] \<and>
         dom (aiContexts ctx) = {''openai'', ''anthropic'', ''gemini'', ''grok''} \<and>
         (\<forall>p msgs. aiContexts ctx p = Some msgs \<longrightarrow> msgs = [])"
    by blast
  have eq': "createConversation cm t r (Some []) =
           (?gen, cm\<lparr>conversations := (conversations cm)(generateId t r \<mapsto> ?gen)\<rparr>)"
    by (simp add: createConversation_def Let_def)
  have same: "createConversation cm t r None = createConversation cm t r (Some [])"
    by (simp add: createConversation_def)
  have ne: "generateId t r \<noteq> []"
    by (simp add: generateId_def)
  have d': "dom (aiContexts ?gen) = {''openai'', ''anthropic'', ''gemini'', ''grok''}"
    using fresh_dom by simp
  have em': "\<forall>p msgs. aiContexts ?gen p = Some msgs \<longrightarrow> msgs = []"
    using fresh_all_empty by simp
  have "cid ?gen = generateId t r \<and> messages ?gen = []" by simp
  with eq' same ne d' em' have generated: "\<exists>ctx. createConversation cm t r (Some []) =
           (ctx, cm\<lparr>conversations := (conversations cm)(generateId t r \<mapsto> ctx)\<rparr>) \<and>
         createConversation cm t r None = createConversation cm t r (Some []) \<and>
         cid ctx = generateId t r \<and> generateId t r \<noteq> [] \<and> messages ctx = [] \<and>
         dom (aiContexts ctx) = {''openai'', ''anthropic'', ''gemini'', ''grok''} \<and>
         (\<forall>p msgs. aiContexts ctx p = Some msgs \<longrightarrow> msgs = [])"
    by blast
  from given generated show ?thesis by (rule conjI)
qed

text \<open>
  The id \<open>c1\<close> holds twenty messages; creating \<open>c1\<close> again leaves it with none, and
  creating the empty id leaves it as it is, the new conversation going under
  \<open>conv_7_k3j9x0q2z\<close>.
\<close>

theorem createConversation_replaces_witness:
  "conversations cm20 ''c1'' = Some full_conversation \<and>
   length (messages full_conversation) = 20 \<and>
   (\<exists>ctx cm'. createConversation cm20 7 ''k3j9x0q2z'' (Some ''c1'') = (ctx, cm') \<and>
      conversations cm' ''c1'' = Some ctx \<and> messages ctx = []) \<and>
   (\<exists>ctx cm'. createConversation cm20 7 ''k3j9x0q2z'' (Some []) = (ctx, cm') \<and>
      conversations cm' ''conv_7_k3j9x0q2z'' = Some ctx \<and> messages ctx = [] \<and>
      conversations cm' ''c1'' = Some full_conversation)"
proof -
  have ne: "''c1'' \<noteq> []" by simp
  note both = createConversation_replaces [OF ne, of cm20 7 "''k3j9x0q2z''"]
  from both have "\<exists>ctx. createConversation cm20 7 ''k3j9x0q2z'' (Some ''c1'') =
           (ctx, cm20\<lparr>conversations := (conversations cm20)(''c1'' \<mapsto> ctx)\<rparr>) \<and>
         cid ctx = ''c1'' \<and> messages ctx = [] \<and>
         dom (aiContexts ctx) = {''openai'', ''anthropic'', ''gemini'', ''grok''} \<and>
         (\<forall>p msgs. aiContexts ctx p = Some msgs \<longrightarrow> msgs = [])"
    by (rule conjunct1)
  then obtain ctx where
    h: "createConversation cm20 7 ''k3j9x0q2z'' (Some ''c1'') =
           (ctx, cm20\<lparr>conversations := (conversations cm20)(''c1'' \<mapsto> ctx)\<rparr>) \<and>
         cid ctx = ''c1'' \<and> messages ctx = [] \<and>
         dom (aiContexts ctx) = {''openai'', ''anthropic'', ''gemini'', ''grok''} \<and>
         (\<forall>p msgs. aiContexts ctx p = Some msgs \<longrightarrow> msgs = [])" ..
  let ?cm' = "cm20\<lparr>conversations := (conversations cm20)(''c1'' \<mapsto> ctx)\<rparr>"
  have stored: "conversations ?cm' ''c1'' = Some ctx" by simp
  from h have created: "createConversation cm20 7 ''k3j9x0q2z'' (Some ''c1'') = (ctx, ?cm')"
    by (rule conjunct1)
  from h have empty: "messages ctx = []"
    by (elim conjE)
  from created stored empty
  have "createConversation cm20 7 ''k3j9x0q2z'' (Some ''c1'') = (ctx, ?cm') \<and>
      conversations ?cm' ''c1'' = Some ctx \<and> messages ctx = []"
    by (intro conjI)
  then have ex: "\<exists>ctx cm'. createConversation cm20 7 ''k3j9x0q2z'' (Some ''c1'') = (ctx, cm') \<and>
      conversations cm' ''c1'' = Some ctx \<and> messages ctx = []"
    by (intro exI)
  have gen: "generateId 7 ''k3j9x0q2z'' = ''conv_7_k3j9x0q2z''"
    by (simp add: generateId_def show_nat.simps)
  have old: "conversations cm20 ''c1'' = Some full_conversation"
    by (simp add: cm20_def)
  from both have "\<exists>ctx. createConversation cm20 7 ''k3j9x0q2z'' (Some []) =
           (ctx, cm20\<lparr>conversations :=
              (conversations cm20)(generateId 7 ''k3j9x0q2z'' \<mapsto> ctx)\<rparr>) \<and>
         createConversation cm20 7 ''k3j9x0q2z'' None =
           createConversation cm20 7 ''k3j9x0q2z'' (Some []) \<and>
         cid ctx = generateId 7 ''k3j9x0q2z'' \<and> generateId 7 ''k3j9x0q2z'' \<noteq> [] \<and>
         messages ctx = [] \<and>
         dom (aiContexts ctx) = {''openai'', ''anthropic'', ''gemini'', ''grok''} \<and>
         (\<forall>p msgs. aiContexts ctx p = Some msgs \<longrightarrow> msgs = [])"
    by (rule conjunct2)
  then obtain gtx where
    g: "createConversation cm20 7 ''k3j9x0q2z'' (Some []) =
           (gtx, cm20\<lparr>conversations :=
              (conversations cm20)(generateId 7 ''k3j9x0q2z'' \<mapsto> gtx)\<rparr>)"
    and gempty: "messages gtx = []"
    by (elim exE conjE)
  let ?gm = "cm20\<lparr>conversations := (conversations cm20)(''conv_7_k3j9x0q2z'' \<mapsto> gtx)\<rparr>"
  from g have gcreated: "createConversation cm20 7 ''k3j9x0q2z'' (Some []) = (gtx, ?gm)"
    by (simp only: gen)
  have gstored: "conversations ?gm ''conv_7_k3j9x0q2z'' = Some gtx" by simp
  have gkept: "conversations ?gm ''c1'' = Some full_conversation"
    using old by simp
  from gcreated gstored gempty gkept
  have "createConversation cm20 7 ''k3j9x0q2z'' (Some []) = (gtx, ?gm) \<and>
      conversations ?gm ''conv_7_k3j9x0q2z'' = Some gtx \<and> messages gtx = [] \<and>
      conversations ?gm ''c1'' = Some full_conversation"
    by (intro conjI)
  then have gex: "\<exists>ctx cm'. createConversation cm20 7 ''k3j9x0q2z'' (Some []) = (ctx, cm') \<and>
      conversations cm' ''conv_7_k3j9x0q2z'' = Some ctx \<and> messages ctx = [] \<and>
      conversations cm' ''c1'' = Some full_conversation"
    by (intro exI)
  have len: "length (messages full_conversation) = 20"
    by (simp add: full_conversation_def twenty_def)
  from old len ex gex show ?thesis by (intro conjI)
qed

text \<open>
  The claim as stated, for every id, fails at the empty string: \<^verbatim>\<open>id || generateId()\<close>
  takes the generated id, and nothing is stored under the empty id.
\<close>

theorem createConversation_empty_id_counterexample:
  "conversations
     (snd (createConversation (new_ContextManager fs0 True) 0 ''k3j9x0q2z'' (Some []))) [] = None"
  by (simp add: createConversation_def new_ContextManager_def generateId_def Let_def)

subsection \<open>The static fallback of the routing decision\<close>

lemma classify_failed: "classification_failed e msgs u \<Longrightarrow> isl (classify e msgs u)"
  by (auto simp: classification_failed_def classify_def
      split: sum.splits option.splits json.splits)

lemma fallback_forward: "shouldForward (fallbackRouting u) = (\<not> mentions_self u)"
  by (simp add: fallbackRouting_def mentions_self_def Let_def)

text \<open>
  Claim C7. In a conversation that has at least one message, when the classification call
  fails or its reply does not parse, \<^verbatim>\<open>shouldForwardToAIs\<close> does not throw: it returns the
  static fallback, which forwards exactly when the lowercased message has no
  self-reference keyword, after the one classification call and no other.
\<close>

theorem routing_fallback:
  assumes "conversations cm convId = Some c" and "messages c \<noteq> []"
    and "classification_failed e (messages c) userMessage"
  shows "\<exists>rt. shouldForwardToAIs e cm convId userMessage = (rt, [ClassificationCall]) \<and>
           shouldForward rt = (\<not> mentions_self userMessage) \<and>
           rt = fallbackRouting userMessage"
  using assms classify_failed [of e "messages c" userMessage]
  by (auto simp: shouldForwardToAIs_def fallback_forward split: sum.splits)


text \<open>
  Offline, in a conversation one turn old, \<open>Who are you?\<close> is answered directly and
  \<open>What about Spain?\<close> is forwarded, each by the fallback.
\<close>

theorem routing_fallback_witness:
  "classification_failed offline [userTurn ''What is 2+2?''] ''Who are you?'' \<and>
   shouldForwardToAIs offline cm1 ''c1'' ''Who are you?'' =
     (\<lparr>shouldForward = False, providers = None,
       reason = Some ''Fallback: Direct MeanGPT interaction detected''\<rparr>, [ClassificationCall]) \<and>
   shouldForwardToAIs offline cm1 ''c1'' ''What about Spain?'' =
     (\<lparr>shouldForward = True, providers = None,
       reason = Some ''Fallback: General question routing''\<rparr>, [ClassificationCall])"
proof -
  let ?c = "\<lparr>cid = ''c1'', messages = [userTurn ''What is 2+2?''],
             aiContexts = [''openai'' \<mapsto> []], createdAt = 0, updatedAt = 0\<rparr>"
  have c: "conversations cm1 ''c1'' = Some ?c" by (simp add: cm1_def)
  have ne: "messages ?c \<noteq> []" by simp
  have f: "classification_failed offline (messages ?c) u" for u
    by (simp add: classification_failed_def offline_def)
  have who: "fallbackRouting ''Who are you?'' =
      \<lparr>shouldForward = False, providers = None,
       reason = Some ''Fallback: Direct MeanGPT interaction detected''\<rparr>"
    by (simp add: fallbackRouting_def toLowerCase_def toLowerChar_def Let_def)
  have spain: "fallbackRouting ''What about Spain?'' =
      \<lparr>shouldForward = True, providers = None,
       reason = Some ''Fallback: General question routing''\<rparr>"
    by (simp add: fallbackRouting_def toLowerCase_def toLowerChar_def Let_def)
  from routing_fallback [OF c ne f, of "''Who are you?''"] who
  have 1: "shouldForwardToAIs offline cm1 ''c1'' ''Who are you?'' =
     (\<lparr>shouldForward = False, providers = None,
       reason = Some ''Fallback: Direct MeanGPT interaction detected''\<rparr>, [ClassificationCall])"
    by auto
  from routing_fallback [OF c ne f, of "''What about Spain?''"] spain
  have 2: "shouldForwardToAIs offline cm1 ''c1'' ''What about Spain?'' =
     (\<lparr>shouldForward = True, providers = None,
       reason = Some ''Fallback: General question routing''\<rparr>, [ClassificationCall])"
    by auto
  from f [of "''Who are you?''"] have 0: "classification_failed offline [userTurn ''What is 2+2?''] ''Who are you?''"
    by simp
  from 0 1 2 show ?thesis by (intro conjI)
qed

subsection \<open>Aggregating when no response or one response is valid\<close>

text \<open>
  Claim C4. When every response has empty content or a non-empty error,
  \<^verbatim>\<open>analyzeResponses\<close> returns its input with \<^verbatim>\<open>meanAnswer\<close> set to
  \<open>All AI providers failed to respond.\<close> and \<^verbatim>\<open>bestAnswer\<close> set to
  \<open>No responses available.\<close>, the other fields as they were.
\<close>

theorem all_failed:
  assumes "\<forall>r \<in> set (responses a). rcontent r = [] \<or> truthy (error r)"
  shows "analyzeResponses e agg a q =
           Inr (a\<lparr>meanAnswer := Some ''All AI providers failed to respond.'',
                  bestAnswer := Some ''No responses available.''\<rparr>)"
proof -
  have "filter isValid (responses a) = []"
    using assms by (auto simp: filter_empty_conv isValid_def)
  then show ?thesis by (simp add: analyzeResponses_def)
qed

text \<open>Two providers, both failed: the two fixed strings, the rest untouched.\<close>

theorem all_failed_witness:
  "list_all (\<lambda>r. rcontent r = [] \<or> truthy (error r)) (responses none_valid) \<and>
   (\<exists>a'. analyzeResponses offline with_meanGPT none_valid ''What is the capital of France?'' = Inr a' \<and>
      meanAnswer a' = Some ''All AI providers failed to respond.'' \<and>
      bestAnswer a' = Some ''No responses available.'' \<and>
      responses a' = responses none_valid \<and> summary a' = summary none_valid \<and>
      atimestamp a' = atimestamp none_valid)"
proof -
  have h: "\<forall>r \<in> set (responses none_valid). rcontent r = [] \<or> truthy (error r)"
    by (simp add: none_valid_def fanout_def failure_def)
  from all_failed [OF h, of offline with_meanGPT "''What is the capital of France?''"]
  have "\<exists>a'. analyzeResponses offline with_meanGPT none_valid ''What is the capital of France?'' = Inr a' \<and>
      meanAnswer a' = Some ''All AI providers failed to respond.'' \<and>
      bestAnswer a' = Some ''No responses available.'' \<and>
      responses a' = responses none_valid \<and> summary a' = summary none_valid \<and>
      atimestamp a' = atimestamp none_valid"
    by simp
  moreover from h
  have "list_all (\<lambda>r. rcontent r = [] \<or> truthy (error r)) (responses none_valid)"
    by (simp add: list_all_iff)
  ultimately show ?thesis by (intro conjI)
qed

text \<open>
  Claim C8. When exactly one response is valid, \<^verbatim>\<open>analyzeResponses\<close> sets
  \<^verbatim>\<open>bestAnswer\<close> to that response's content as it is, and \<^verbatim>\<open>meanAnswer\<close> to what
  \<^verbatim>\<open>calculateMeanAnswer\<close> makes of it: the text of the synthesis call whenever the
  synthesis provider is there and answers with a non-empty text.
\<close>

theorem single_valid:
  assumes "filter isValid (responses a) = [r]"
  shows "analyzeResponses e agg a q =
           Inr (a\<lparr>meanAnswer := Some (calculateMeanAnswer e agg [r] q (responses a)),
                  bestAnswer := Some (rcontent r)\<rparr>) \<and>
         (\<forall>p s tok. meanGPT agg = Some p \<and> s \<noteq> [] \<and>
             mean_create e (responses a) q = Inr \<lparr>choice_content = Some s, total_tokens = tok\<rparr> \<longrightarrow>
             calculateMeanAnswer e agg [r] q (responses a) = s)"
  using assms
  by (auto simp: analyzeResponses_def Let_def calculateMeanAnswer_def meanGPT_sendMessage_def
      OpenAI_respond_def synthesis_options_def success_def or_else_def)

text \<open>
  OpenAI answers \<open>Paris\<close> and Grok fails: the best answer is \<open>Paris\<close>, the mean answer
  the synthesis text.
\<close>

theorem single_valid_witness:
  "filter isValid (responses one_valid) = [answer openai_desc ''Paris''] \<and>
   (\<exists>a'. analyzeResponses synthesising with_meanGPT one_valid ''What is the capital of France?'' = Inr a' \<and>
      bestAnswer a' = Some ''Paris'' \<and> meanAnswer a' = Some ''Consensus: Paris'')"
proof -
  have h: "filter isValid (responses one_valid) = [answer openai_desc ''Paris'']"
    by (simp add: one_valid_def fanout_def answer_def failure_def isValid_def truthy_def)
  have g: "meanGPT with_meanGPT = Some (OpenAIProvider ''sk-test'' ''gpt-4o-mini'') \<and>
      ''Consensus: Paris'' \<noteq> [] \<and>
      mean_create synthesising (responses one_valid) ''What is the capital of France?'' =
        Inr \<lparr>choice_content = Some ''Consensus: Paris'', total_tokens = None\<rparr>"
    by (simp add: with_meanGPT_def synthesising_def)
  note inst = single_valid [OF h, of synthesising with_meanGPT "''What is the capital of France?''"]
  from inst g have m: "calculateMeanAnswer synthesising with_meanGPT [answer openai_desc ''Paris'']
       ''What is the capital of France?'' (responses one_valid) = ''Consensus: Paris''"
    by blast
  from inst m have "\<exists>a'. analyzeResponses synthesising with_meanGPT one_valid ''What is the capital of France?'' = Inr a' \<and>
      bestAnswer a' = Some ''Paris'' \<and> meanAnswer a' = Some ''Consensus: Paris''"
    by (simp add: answer_def)
  with h show ?thesis by (intro conjI)
qed

subsection \<open>Providers answer, they do not throw\<close>

lemma or_else_nonempty: "d \<noteq> [] \<Longrightarrow> or_else s d \<noteq> []"
  by (simp add: or_else_def split: option.splits)

lemma handleError_shape:
  "provider (handleError e p err) = pprovider p \<and> rcontent (handleError e p err) = [] \<and>
   truthy (error (handleError e p err))"
  by (simp add: handleError_def truthy_def or_else_nonempty)

lemma success_shape:
  "provider (success e p t k) = pprovider p \<and> error (success e p t k) = None"
  by (simp add: success_def)

lemma Gemini_last:
  "attempt = maxRetries \<Longrightarrow>
   Gemini_loop e p req attempt lastError =
     (case gemini_send e attempt req of
        Inr text \<Rightarrow> Inr (success e p text None)
      | Inl err \<Rightarrow> Inr (handleError e p err))"
  by (subst Gemini_loop.simps) (simp split: sum.splits)

lemma Gemini_before_last:
  "Suc attempt = maxRetries \<Longrightarrow>
   Gemini_loop e p req attempt lastError =
     (case gemini_send e attempt req of
        Inr text \<Rightarrow> Inr (success e p text None)
      | Inl err \<Rightarrow>
          if isOverloaded err then Gemini_loop e p req (Suc attempt) (Some err)
          else Inr (handleError e p err))"
  by (subst Gemini_loop.simps) (auto split: sum.splits)

lemma Gemini_two_attempts:
  "Gemini_loop e p req (Suc 0) None =
     (case gemini_send e (Suc 0) req of
        Inr text \<Rightarrow> Inr (success e p text None)
      | Inl err \<Rightarrow>
          if isOverloaded err then
            (case gemini_send e 2 req of
               Inr text \<Rightarrow> Inr (success e p text None)
             | Inl err2 \<Rightarrow> Inr (handleError e p err2))
          else Inr (handleError e p err))"
proof -
  have a: "Suc (Suc 0) = maxRetries" by (simp add: maxRetries_def)
  have b: "Suc (Suc 0) = 2" by simp
  have l: "Gemini_loop e p req (Suc (Suc 0)) lastError =
      (case gemini_send e 2 req of
         Inr text \<Rightarrow> Inr (success e p text None)
       | Inl err \<Rightarrow> Inr (handleError e p err))" for lastError
    using Gemini_last [OF a, of e p req lastError] by (simp only: b)
  show ?thesis
    by (simp only: Gemini_before_last [OF a] l)
qed

lemma sendMessage_OpenAI:
  assumes "kind p = OpenAI"
  shows "\<exists>r. sendMessage e p msgs opts = Inr r \<and> provider r = pprovider p \<and>
     (call_failed e p msgs opts \<longrightarrow> rcontent r = [] \<and> truthy (error r)) \<and>
     (\<not> call_failed e p msgs opts \<longrightarrow> error r = None)"
  using assms handleError_shape [of e p] success_shape [of e p]
  by (auto simp: sendMessage_def call_failed_def OpenAI_respond_def Let_def split: sum.splits)

lemma sendMessage_Anthropic:
  assumes "kind p = Anthropic"
  shows "\<exists>r. sendMessage e p msgs opts = Inr r \<and> provider r = pprovider p \<and>
     (call_failed e p msgs opts \<longrightarrow> rcontent r = [] \<and> truthy (error r)) \<and>
     (\<not> call_failed e p msgs opts \<longrightarrow> error r = None)"
  using assms handleError_shape [of e p] success_shape [of e p]
  by (auto simp: sendMessage_def call_failed_def Anthropic_respond_def Anthropic_try_def Let_def
      split: sum.splits list.splits content_block.splits)

lemma sendMessage_Grok:
  assumes "kind p = Grok"
  shows "\<exists>r. sendMessage e p msgs opts = Inr r \<and> provider r = pprovider p \<and>
     (call_failed e p msgs opts \<longrightarrow> rcontent r = [] \<and> truthy (error r)) \<and>
     (\<not> call_failed e p msgs opts \<longrightarrow> error r = None)"
  using assms handleError_shape [of e p] success_shape [of e p]
  by (auto simp: sendMessage_def call_failed_def Grok_respond_def Grok_try_def Let_def
      split: sum.splits)

lemma sendMessage_Gemini:
  assumes "kind p = Gemini"
  shows "\<exists>r. sendMessage e p msgs opts = Inr r \<and> provider r = pprovider p \<and>
     (call_failed e p msgs opts \<longrightarrow> rcontent r = [] \<and> truthy (error r)) \<and>
     (\<not> call_failed e p msgs opts \<longrightarrow> error r = None)"
  using assms handleError_shape [of e p] success_shape [of e p]
  by (auto simp: sendMessage_def call_failed_def Gemini_two_attempts Let_def
      split: sum.splits)

lemma sendMessage_returns:
  "\<exists>r. sendMessage e p msgs opts = Inr r \<and> provider r = pprovider p"
  using sendMessage_OpenAI [of p e msgs opts] sendMessage_Anthropic [of p e msgs opts]
    sendMessage_Grok [of p e msgs opts] sendMessage_Gemini [of p e msgs opts]
  by (cases "kind p") blast+

text \<open>
  Claim C2. For each of the four provider classes, every message list and every options
  argument, \<^verbatim>\<open>sendMessage\<close> returns a response tagged with its own provider and does
  not throw. When the underlying call fails, the response has empty content and a
  non-empty error; when it does not, the response has no error.
\<close>

theorem sendMessage_never_throws:
  "\<exists>r. sendMessage e p msgs opts = Inr r \<and> provider r = pprovider p \<and>
     (call_failed e p msgs opts \<longrightarrow> rcontent r = [] \<and> truthy (error r)) \<and>
     (\<not> call_failed e p msgs opts \<longrightarrow> error r = None)"
  using sendMessage_OpenAI [of p e msgs opts] sendMessage_Anthropic [of p e msgs opts]
    sendMessage_Grok [of p e msgs opts] sendMessage_Gemini [of p e msgs opts]
  by (cases "kind p") blast+

text \<open>Grok with the network down: an empty content and the error \<open>fetch failed\<close>.\<close>

theorem sendMessage_never_throws_witness:
  "call_failed offline grok0 [userTurn ''hi''] None \<and>
   (\<exists>r. sendMessage offline grok0 [userTurn ''hi''] None = Inr r \<and>
      rcontent r = [] \<and> error r = Some ''fetch failed'' \<and> name (provider r) = ''grok'')"
proof -
  have f: "call_failed offline grok0 [userTurn ''hi''] None"
    by (simp add: call_failed_def grok0_def GrokProvider_def offline_def)
  from sendMessage_never_throws [of offline grok0 "[userTurn ''hi'']" None] f
  obtain r where r: "sendMessage offline grok0 [userTurn ''hi''] None = Inr r"
    and "rcontent r = []" "truthy (error r)" "provider r = pprovider grok0"
    by blast
  moreover have "sendMessage offline grok0 [userTurn ''hi''] None =
      Inr (handleError offline grok0 (Error (Some ''fetch failed'')))"
    by (simp add: sendMessage_def grok0_def GrokProvider_def offline_def Grok_respond_def Grok_try_def)
  ultimately have "error r = Some ''fetch failed'' \<and> name (provider r) = ''grok'' \<and> rcontent r = []"
    by (simp add: handleError_def or_else_def grok0_def GrokProvider_def)
  with r f show ?thesis by blast
qed

subsection \<open>The fan-out\<close>

lemma fulfilled_only:
  "map provider
     (concat (map (\<lambda>(p, result). case result of Inr v \<Rightarrow> [v] | Inl err \<Rightarrow> [])
                  (map (\<lambda>(n, p). (p, sendMessage e p msgs opts)) active))) =
   map (\<lambda>(n, p). pprovider p) active"
proof (induction active)
  case Nil
  show ?case by simp
next
  case (Cons a active)
  obtain n p where a: "a = (n, p)" by (cases a)
  from sendMessage_returns [of e p msgs opts]
  obtain r where "sendMessage e p msgs opts = Inr r" "provider r = pprovider p" by blast
  with Cons a show ?case by simp
qed

lemma none_rejected:
  "concat (map (\<lambda>(p, result). case result of Inr v \<Rightarrow> [] | Inl err \<Rightarrow> [h p err])
               (map (\<lambda>(n, p). (p, sendMessage e p msgs opts)) active)) = []"
proof (induction active)
  case Nil
  show ?case by simp
next
  case (Cons a active)
  obtain n p where a: "a = (n, p)" by (cases a)
  from sendMessage_returns [of e p msgs opts]
  obtain r where "sendMessage e p msgs opts = Inr r" by blast
  with Cons a show ?case by simp
qed

lemma responses_of_active:
  "map provider (responses (fst (queryAllProviders e provs msgs options))) =
   map (\<lambda>(n, p). pprovider p) (activeProviders provs options)"
  by (simp only: queryAllProviders_def Let_def fst_conv AggregatedResponse.select_convs
      map_append none_rejected fulfilled_only append_Nil2 list.map)

lemma keyed_initializeProviders: "keyed_by_name (initializeProviders penv)"
  by (simp add: keyed_by_name_def initializeProviders_def configured_def OpenAIProvider_def
      AnthropicProvider_def GeminiProvider_def GrokProvider_def split: option.splits)

lemma names_of_filter:
  "keyed_by_name provs \<Longrightarrow>
   map (\<lambda>(n, p). name (pprovider p)) (filter (\<lambda>(n, p). n \<in> set ps) provs) =
   filter (\<lambda>n. n \<in> set ps) (map fst provs)"
  by (induction provs) (auto simp: keyed_by_name_def)

lemma available_subseq:
  "subseq (getAvailableProviders (initializeProviders penv))
     [''openai'', ''anthropic'', ''gemini'', ''grok'']"
  by (simp add: getAvailableProviders_def initializeProviders_def configured_def
      split: option.splits)

text \<open>
  Claim C1, amended. For every message list and every requested list of names,
  \<^verbatim>\<open>queryAllProviders\<close> returns one response for each configured provider that the list
  names, failed ones included: the names tagged on the responses are the configured
  names (a subsequence of openai, anthropic, gemini, grok) filtered by membership in the
  list. So a provider without an API key contributes nothing, a name listed twice
  counts once, and the order is the order of configuration, not that of the list.
\<close>

theorem queryAllProviders_configured_subset:
  "map (\<lambda>r. name (provider r))
     (responses (fst (queryAllProviders e (initializeProviders penv) msgs
        (Some \<lparr>q_temperature = temp, q_maxTokens = maxTok, q_providers = Some ps\<rparr>)))) =
   filter (\<lambda>n. n \<in> set ps) (getAvailableProviders (initializeProviders penv)) \<and>
   subseq (getAvailableProviders (initializeProviders penv))
     [''openai'', ''anthropic'', ''gemini'', ''grok'']"
proof -
  let ?provs = "initializeProviders penv"
  let ?opts = "Some \<lparr>q_temperature = temp, q_maxTokens = maxTok, q_providers = Some ps\<rparr>"
  have "map (\<lambda>r. name (provider r)) (responses (fst (queryAllProviders e ?provs msgs ?opts))) =
        map name (map provider (responses (fst (queryAllProviders e ?provs msgs ?opts))))"
    by simp
  also have "\<dots> = map name (map (\<lambda>(n, p). pprovider p) (activeProviders ?provs ?opts))"
    by (simp only: responses_of_active)
  also have "\<dots> = map (\<lambda>(n, p). name (pprovider p)) (filter (\<lambda>(n, p). n \<in> set ps) ?provs)"
    by (simp add: activeProviders_def case_prod_unfold)
  also have "\<dots> = filter (\<lambda>n. n \<in> set ps) (map fst ?provs)"
    by (rule names_of_filter [OF keyed_initializeProviders])
  finally show ?thesis
    using available_subseq [of penv] by (simp add: getAvailableProviders_def)
qed

text \<open>
  The claim as stated fails twice. With only the OpenAI key set, asking for anthropic
  gives no response at all, not one. With the OpenAI and Grok keys set, asking for grok
  and then openai gives openai first.
\<close>

theorem queryAllProviders_counterexample:
  "responses (fst (queryAllProviders offline (initializeProviders openai_only)
      [userTurn ''hi''] (asking [''anthropic'']))) = [] \<and>
   map name (map provider (responses (fst (queryAllProviders offline
      (initializeProviders openai_and_grok) [userTurn ''hi''] (asking [''grok'', ''openai''])))))
     = [''openai'', ''grok'']"
proof -
  have 1: "activeProviders (initializeProviders openai_only) (asking [''anthropic'']) = []"
    by (simp add: activeProviders_def initializeProviders_def configured_def openai_only_def
        no_keys_def asking_def)
  have 2: "map (\<lambda>(n, p). pprovider p)
             (activeProviders (initializeProviders openai_and_grok) (asking [''grok'', ''openai''])) =
           [pprovider (OpenAIProvider ''sk-test'' ''gpt-4o-mini''),
            pprovider (GrokProvider ''xai-test'' ''grok-2-1212'')]"
    by (simp add: activeProviders_def initializeProviders_def configured_def openai_and_grok_def
        no_keys_def asking_def or_else_def)
  have a: "responses (fst (queryAllProviders offline (initializeProviders openai_only)
      [userTurn ''hi''] (asking [''anthropic'']))) = []"
    by (simp add: queryAllProviders_def Let_def 1)
  have b: "map name (map provider (responses (fst (queryAllProviders offline
      (initializeProviders openai_and_grok) [userTurn ''hi''] (asking [''grok'', ''openai''])))))
     = [''openai'', ''grok'']"
    by (simp only: responses_of_active 2) (simp add: OpenAIProvider_def GrokProvider_def)
  from a b show ?thesis by (intro conjI)
qed

text \<open>With the OpenAI and Grok keys set, asking for grok, anthropic, grok gives grok once.\<close>

theorem queryAllProviders_configured_subset_witness:
  "map name (map provider (responses (fst (queryAllProviders offline
      (initializeProviders openai_and_grok) [userTurn ''hi'']
      (Some \<lparr>q_temperature = None, q_maxTokens = None,
             q_providers = Some [''grok'', ''anthropic'', ''grok'']\<rparr>))))) = [''grok'']"
proof -
  have av: "getAvailableProviders (initializeProviders openai_and_grok) = [''openai'', ''grok'']"
    by (simp add: getAvailableProviders_def initializeProviders_def configured_def
        openai_and_grok_def no_keys_def)
  from queryAllProviders_configured_subset [of offline openai_and_grok "[userTurn ''hi'']" None None
      "[''grok'', ''anthropic'', ''grok'']"]
  show ?thesis by (simp add: av comp_def)
qed

subsection \<open>The fallback mean answer\<close>

lemma dollar_not_dc: "\<not> isDigitOrComma CHR ''$''"
  by (simp add: isDigitOrComma_def isDigit_def)

lemma point_not_dc: "\<not> isDigitOrComma CHR ''.''"
  by (simp add: isDigitOrComma_def isDigit_def)

lemma run_then_rest:
  assumes "list_all isDigitOrComma ds"
    and "fs = [] \<or> (\<exists>ts. fs = CHR ''.'' # ts)"
  shows "takeWhile isDigitOrComma (ds @ fs) = ds \<and> dropWhile isDigitOrComma (ds @ fs) = fs"
proof -
  from assms(1) have all: "\<forall>x \<in> set ds. isDigitOrComma x"
    by (simp add: list_all_iff)
  from assms(2) have "takeWhile isDigitOrComma fs = []" and "dropWhile isDigitOrComma fs = fs"
    using point_not_dc by auto
  with all show ?thesis
    by (simp add: takeWhile_append2 dropWhile_append2)
qed

text \<open>The matcher of the model accepts what the regular expression accepts.\<close>

lemma numericPattern_iff: "numericPattern s = bare_number s"
proof
  assume np: "numericPattern s"
  define s1 where "s1 = (case s of c # cs \<Rightarrow> if c = CHR ''$'' then cs else s | [] \<Rightarrow> s)"
  define run where "run = takeWhile isDigitOrComma s1"
  define rest where "rest = dropWhile isDigitOrComma s1"
  from np have run_ne: "run \<noteq> []"
    and rest: "rest = [] \<or> (\<exists>cs. rest = CHR ''.'' # cs \<and> list_all isDigit cs)"
    by (auto simp: numericPattern_def Let_def s1_def run_def rest_def split: list.splits)
  have s1: "s1 = run @ rest" by (simp add: run_def rest_def)
  have run_all: "list_all isDigitOrComma run"
    unfolding run_def list_all_iff by (auto dest: set_takeWhileD)
  have "\<exists>d. s = d @ s1 \<and> (d = [] \<or> d = ''$'')"
    by (cases s) (auto simp: s1_def)
  then obtain d where "s = d @ run @ rest" "d = [] \<or> d = ''$''"
    using s1 by auto
  with run_ne run_all rest show "bare_number s"
    unfolding bare_number_def by blast
next
  assume "bare_number s"
  then obtain d ds fs where s: "s = d @ ds @ fs" and d: "d = [] \<or> d = ''$''"
    and ds: "ds \<noteq> []" "list_all isDigitOrComma ds"
    and fs: "fs = [] \<or> (\<exists>ts. fs = CHR ''.'' # ts \<and> list_all isDigit ts)"
    unfolding bare_number_def by blast
  from ds obtain c cs where dsc: "ds = c # cs" and c: "isDigitOrComma c"
    by (cases ds) auto
  have c_not_dollar: "c \<noteq> CHR ''$''" using c dollar_not_dc by auto
  have s1: "(case s of c # cs \<Rightarrow> if c = CHR ''$'' then cs else s | [] \<Rightarrow> s) = ds @ fs"
    using d s dsc c_not_dollar by auto
  from fs have fs': "fs = [] \<or> (\<exists>ts. fs = CHR ''.'' # ts)" by auto
  from run_then_rest [OF ds(2) fs'] ds(1) fs show "numericPattern s"
    unfolding numericPattern_def Let_def s1 by auto
qed

lemma floor_rat_numeral:
  "\<lfloor>(numeral a :: rat) / numeral b\<rfloor> = numeral a div numeral b"
  by (metis floor_divide_of_int_eq of_int_numeral)

lemma numeric_content_code:
  "numeric_content c =
     (numericPattern (trim c) \<or>
      list_ex (\<lambda>line. numericPattern (trim line)) (split_lines (trim c)))"
  by (simp add: numeric_content_def numericPattern_iff list_ex_iff)

lemma areNumeric_iff:
  "areNumericResponses cs = list_all numeric_content cs"
  by (simp add: areNumericResponses_def numeric_content_code Let_def list_all_iff)

lemma unavailable_falls_back:
  "synthesis_unavailable e agg q allResponses \<Longrightarrow>
   calculateMeanAnswer e agg rs q allResponses = simpleAverage e rs"
  by (auto simp: synthesis_unavailable_def calculateMeanAnswer_def meanGPT_sendMessage_def
      OpenAI_respond_def synthesis_options_def success_def handleError_def
      split: option.splits sum.splits)

lemma valid_contents:
  "list_all isValid rs \<Longrightarrow> filter (\<lambda>c. c \<noteq> []) (map rcontent rs) = map rcontent rs"
  by (induction rs) (auto simp: isValid_def)

text \<open>Reading digits from the left gives the positional sum.\<close>

lemma digits_value_snoc: "digits_value (ds @ [d]) = 10 * digits_value ds + digit_value d"
  by (simp add: digits_value_def)

lemma digits_value_positional:
  "digits_value ds = (\<Sum>i<length ds. digit_value (ds ! i) * 10 ^ (length ds - Suc i))"
proof (induction ds rule: rev_induct)
  case Nil
  show ?case by (simp add: digits_value_def)
next
  case (snoc d ds)
  have "(\<Sum>i<length ds. digit_value ((ds @ [d]) ! i) * 10 ^ (length (ds @ [d]) - Suc i)) =
        (\<Sum>i<length ds. 10 * (digit_value (ds ! i) * 10 ^ (length ds - Suc i)))"
  proof (rule sum.cong)
    fix i assume "i \<in> {..<length ds}"
    then have i: "i < length ds" by simp
    then have "length (ds @ [d]) - Suc i = Suc (length ds - Suc i)" by simp
    with i show "digit_value ((ds @ [d]) ! i) * 10 ^ (length (ds @ [d]) - Suc i) =
        10 * (digit_value (ds ! i) * 10 ^ (length ds - Suc i))"
      by (simp add: nth_append)
  qed simp
  then show ?case
    by (simp add: digits_value_snoc snoc.IH sum_distrib_left)
qed

lemma integer_positional:
  "(of_nat (digits_value ip) :: rat) =
   (\<Sum>i<length ip. of_nat (digit_value (ip ! i)) * 10 ^ (length ip - Suc i))"
  by (simp add: digits_value_positional)

lemma fraction_positional:
  "(of_nat (digits_value fp) :: rat) / 10 ^ length fp =
   (\<Sum>j<length fp. of_nat (digit_value (fp ! j)) / 10 ^ Suc j)"
proof -
  have "(of_nat (digits_value fp) :: rat) / 10 ^ length fp =
        (\<Sum>j<length fp. of_nat (digit_value (fp ! j)) * 10 ^ (length fp - Suc j) / 10 ^ length fp)"
    by (simp add: integer_positional sum_divide_distrib)
  also have "\<dots> = (\<Sum>j<length fp. of_nat (digit_value (fp ! j)) / 10 ^ Suc j)"
  proof (rule sum.cong)
    fix j assume "j \<in> {..<length fp}"
    then have "length fp = (length fp - Suc j) + Suc j" by simp
    then have "(10::rat) ^ length fp = 10 ^ (length fp - Suc j) * 10 ^ Suc j"
      by (metis power_add)
    then show "(of_nat (digit_value (fp ! j)) :: rat) * 10 ^ (length fp - Suc j) / 10 ^ length fp =
        of_nat (digit_value (fp ! j)) / 10 ^ Suc j"
      by simp
  qed simp
  finally show ?thesis .
qed

text \<open>
  The token \<^verbatim>\<open>parseFloat\<close> is given: digits, or digits, a point and digits. On these the
  number it returns is the double nearest to the decimal of the token.
\<close>

lemma digit_not_comma: "isDigit c \<Longrightarrow> c \<noteq> CHR '',''"
  by (auto simp: isDigit_def)

lemma digit_not_point: "isDigit c \<Longrightarrow> c \<noteq> CHR ''.''"
  by (auto simp: isDigit_def)

lemma filter_run_digits:
  "list_all isDigit (filter (\<lambda>ch. ch \<noteq> CHR '','') (takeWhile isDigitOrComma s))"
  by (induction s) (auto simp: isDigitOrComma_def)

lemma filter_digits:
  "filter (\<lambda>ch. ch \<noteq> CHR '','') (takeWhile isDigit s) = takeWhile isDigit s"
  by (induction s) (auto dest: digit_not_comma)

lemma takeWhile_digits: "list_all isDigit (takeWhile isDigit s)"
  by (induction s) auto

lemma token_shape:
  assumes "firstNumericToken c = Some tok"
  shows "\<exists>ip fp. list_all isDigit ip \<and> list_all isDigit fp \<and>
     (filter (\<lambda>ch. ch \<noteq> CHR '','') tok = ip \<or>
      filter (\<lambda>ch. ch \<noteq> CHR '','') tok = ip @ CHR ''.'' # fp)"
proof -
  define s1 where "s1 = dropWhile (\<lambda>c. \<not> isDigitOrComma c) c"
  define run where "run = takeWhile isDigitOrComma s1"
  define rest where "rest = dropWhile isDigitOrComma s1"
  define ip where "ip = filter (\<lambda>ch. ch \<noteq> CHR '','') run"
  have ip: "list_all isDigit ip"
    unfolding ip_def run_def by (rule filter_run_digits)
  from assms have tok: "tok = (case rest of
      [] \<Rightarrow> run
    | c # cs \<Rightarrow> if c = CHR ''.'' then run @ [c] @ takeWhile isDigit cs else run)"
    unfolding firstNumericToken_def Let_def s1_def [symmetric] run_def [symmetric]
      rest_def [symmetric]
    by (simp split: if_splits)
  show ?thesis
  proof (cases "\<exists>cs. rest = CHR ''.'' # cs")
    case True
    then obtain cs where "rest = CHR ''.'' # cs" ..
    with tok have "filter (\<lambda>ch. ch \<noteq> CHR '','') tok = ip @ CHR ''.'' # takeWhile isDigit cs"
      by (simp add: ip_def filter_digits)
    with ip takeWhile_digits show ?thesis by blast
  next
    case False
    with tok have "tok = run" by (auto split: list.splits)
    then have "filter (\<lambda>ch. ch \<noteq> CHR '','') tok = ip" by (simp add: ip_def)
    with ip show ?thesis by (intro exI [of _ ip] exI [of _ "[]"]) simp
  qed
qed

lemma all_digits_takeWhile:
  assumes "list_all isDigit ip"
  shows "takeWhile isDigit (ip @ CHR ''.'' # fp) = ip"
    and "dropWhile isDigit (ip @ CHR ''.'' # fp) = CHR ''.'' # fp"
    and "takeWhile (\<lambda>c. c \<noteq> CHR ''.'') (ip @ CHR ''.'' # fp) = ip"
    and "takeWhile isDigit ip = ip"
    and "dropWhile isDigit ip = []"
    and "takeWhile (\<lambda>c. c \<noteq> CHR ''.'') ip = ip"
  using assms by (induction ip) (auto simp: isDigit_def)

lemma all_digits_ex: "list_all isDigit ds \<Longrightarrow> list_ex isDigit ds = (ds \<noteq> [])"
  by (cases ds) auto

lemma parseFloat_decimal:
  assumes ip: "list_all isDigit ip" and fp: "list_all isDigit fp"
    and t: "t = ip \<or> t = ip @ CHR ''.'' # fp"
  shows "parseFloat t = (if list_ex isDigit t then binary64 (decimal_value t) else NaN)"
proof -
  from t show ?thesis
  proof
    assume t: "t = ip"
    have "decimal_value t = of_nat (digits_value ip)"
      by (simp add: decimal_value_def t all_digits_takeWhile [OF ip] integer_positional)
    moreover have "parseFloat t = (if ip = [] then NaN else binary64 (of_nat (digits_value ip)))"
      by (simp add: parseFloat_def t all_digits_takeWhile [OF ip] digits_value_def)
    ultimately show ?thesis
      by (simp add: t all_digits_ex [OF ip])
  next
    assume t: "t = ip @ CHR ''.'' # fp"
    have tw: "takeWhile (\<lambda>c. c \<noteq> CHR ''.'') t = ip"
      by (simp add: t all_digits_takeWhile [OF ip])
    have dr: "drop (Suc (length ip)) t = fp"
      by (simp add: t)
    have "decimal_value t = of_nat (digits_value ip) + of_nat (digits_value fp) / 10 ^ length fp"
      by (simp only: decimal_value_def Let_def tw dr integer_positional [symmetric]
          fraction_positional [symmetric])
    moreover have "parseFloat t =
        (if ip = [] \<and> fp = [] then NaN
         else binary64 (of_nat (digits_value ip) + of_nat (digits_value fp) / 10 ^ length fp))"
      by (simp add: parseFloat_def t all_digits_takeWhile [OF ip] all_digits_takeWhile(4) [OF fp])
    moreover have "list_ex isDigit t = (ip \<noteq> [] \<or> fp \<noteq> [])"
      using all_digits_ex [OF ip] all_digits_ex [OF fp]
      by (simp add: t isDigit_def)
    ultimately show ?thesis by simp
  qed
qed

lemma extractNumber_token: "extractNumber c = token_number c"
proof (cases "firstNumericToken c")
  case None
  then show ?thesis by (simp add: extractNumber_def token_number_def)
next
  case (Some tok)
  from token_shape [OF Some] obtain ip fp
    where "list_all isDigit ip" "list_all isDigit fp"
      "filter (\<lambda>ch. ch \<noteq> CHR '','') tok = ip \<or>
       filter (\<lambda>ch. ch \<noteq> CHR '','') tok = ip @ CHR ''.'' # fp"
    by blast
  from parseFloat_decimal [OF this] Some show ?thesis
    by (simp add: extractNumber_def token_number_def Let_def)
qed

text \<open>
  The text \<^verbatim>\<open>toFixed(2)\<close> builds, digits padded and the point put in, is the integer
  part, the point, and the two digits of the hundredths.
\<close>

lemma show_nat_small: "n < 10 \<Longrightarrow> show_nat n = [digit_char n]"
  by (subst show_nat.simps) simp

lemma show_nat_big: "10 \<le> n \<Longrightarrow> show_nat n = show_nat (n div 10) @ [digit_char n]"
  by (subst show_nat.simps) simp

lemma show_nat_ne: "show_nat n \<noteq> []"
  by (subst show_nat.simps) simp

lemma digit_char_mod: "digit_char (n mod 10) = digit_char n"
  by simp

lemma pad_point:
  "(let m = show_nat n;
        m = replicate (3 - length m) CHR ''0'' @ m;
        k = length m
    in take (k - 2) m @ ''.'' @ drop (k - 2) m) =
   show_nat (n div 100) @ ''.'' @ [digit_char ((n div 10) mod 10), digit_char (n mod 10)]"
proof -
  consider "n < 10" | "10 \<le> n" "n < 100" | "100 \<le> n" by linarith
  then show ?thesis
  proof cases
    case 1
    then have "show_nat n = [digit_char n]" "show_nat (n div 100) = ''0''"
      by (simp_all add: show_nat_small)
    with 1 show ?thesis by (simp add: Let_def numeral_3_eq_3)
  next
    case 2
    then have "show_nat n = [digit_char (n div 10), digit_char n]" "show_nat (n div 100) = ''0''"
      by (simp_all add: show_nat_big show_nat_small)
    then show ?thesis by (simp add: Let_def numeral_3_eq_3)
  next
    case 3
    then have "10 \<le> n" "10 \<le> n div 10" by simp_all
    moreover have "n div 10 div 10 = n div 100"
      by (simp add: div_mult2_eq [symmetric])
    ultimately have "show_nat n = show_nat (n div 100) @ [digit_char (n div 10), digit_char n]"
      by (simp add: show_nat_big)
    moreover have "Suc 0 \<le> length (show_nat (n div 100))"
      using show_nat_ne [of "n div 100"] by (cases "show_nat (n div 100)") simp_all
    ultimately show ?thesis by (simp add: Let_def)
  qed
qed

lemma toFixed2_two_decimals:
  "toFixed2 e (Num x) = (if x < 10 ^ 21 then two_decimals x else Number_toString e x)"
proof -
  have "nat \<lfloor>x * 100 + 1 / 2\<rfloor> = nat (round (100 * x))"
    by (simp add: round_def mult.commute)
  then show ?thesis
    using pad_point [of "nat (round (100 * x))"]
    by (simp add: toFixed2_def two_decimals_def Let_def not_less)
qed

lemma toFixed2_currency: "''Mean value: $'' @ toFixed2 e a = currency e a"
  by (cases a) (simp_all add: currency_def toFixed2_two_decimals, simp_all add: toFixed2_def)

lemma simpleAverage_valid:
  assumes "list_all isValid rs"
  shows "simpleAverage e rs =
     (if list_all (\<lambda>r. numeric_content (rcontent r)) rs then
        (let vs = filter number_gt0 (map (\<lambda>r. token_number (rcontent r)) rs)
         in if vs = [] then ''Unable to calculate mean'' else currency e (double_mean vs))
      else labelled_concatenation rs)"
proof -
  define vs where "vs = filter number_gt0 (map (\<lambda>r. token_number (rcontent r)) rs)"
  have 1: "list_all numeric_content (map rcontent rs) =
           list_all (\<lambda>r. numeric_content (rcontent r)) rs"
    by (simp add: list_all_iff)
  have 2: "filter number_gt0 (map extractNumber (map rcontent rs)) = vs"
    unfolding vs_def by (simp add: comp_def extractNumber_token)
  have "simpleAverage e rs =
     (if list_all (\<lambda>r. numeric_content (rcontent r)) rs then
        (if length vs = 0 then ''Unable to calculate mean''
         else ''Mean value: $'' @
              toFixed2 e (number_div (foldl number_add (Num 0) vs) (length vs)))
      else ''Combined response from '' @ show_nat (length rs) @ '' AIs:\<newline>\<newline>'' @
           join ''\<newline>\<newline>'' (map (\<lambda>r. displayName (provider r) @ '': '' @ rcontent r) rs))"
    by (simp only: simpleAverage_def valid_contents [OF assms] Let_def areNumeric_iff 1
        calculateNumericMean_def 2)
  then have "simpleAverage e rs =
     (if list_all (\<lambda>r. numeric_content (rcontent r)) rs then
        (if vs = [] then ''Unable to calculate mean'' else currency e (double_mean vs))
      else labelled_concatenation rs)"
    by (simp only: toFixed2_currency double_mean_def [symmetric]
        labelled_concatenation_def [symmetric] length_0_conv)
  then show ?thesis by (simp only: Let_def vs_def)
qed

text \<open>
  Claim C5, amended. When the synthesis provider is unavailable, the mean answer of a
  list of valid responses is this. If every content is a bare, optionally
  dollar-prefixed decimal number, entirely or on one of its lines: the first numeric
  token of each content is read as a double, the tokens that are zero or have no digit
  are left out of the sum and of the count, and with none left the answer is
  \<open>Unable to calculate mean\<close>; otherwise it is \<open>Mean value: $\<close> and the mean of the
  remaining numbers, taken in double arithmetic (added from the left, then divided by
  their count) and printed with two decimals, or as the host prints the number once it
  reaches \<open>10 ^ 21\<close>. So when all first tokens are positive it is the mean of the first
  token of each response. If some content is not such a number: a header with the
  number of responses, then all valid responses labelled by display name.
\<close>

theorem fallback_mean:
  assumes "synthesis_unavailable e agg q allResponses" and "list_all isValid rs"
  shows "calculateMeanAnswer e agg rs q allResponses =
     (if list_all (\<lambda>r. numeric_content (rcontent r)) rs then
        (let vs = filter number_gt0 (map (\<lambda>r. token_number (rcontent r)) rs)
         in if vs = [] then ''Unable to calculate mean'' else currency e (double_mean vs))
      else labelled_concatenation rs) \<and>
     (rs \<noteq> [] \<and>
      list_all (\<lambda>r. numeric_content (rcontent r) \<and> number_gt0 (token_number (rcontent r))) rs \<longrightarrow>
        calculateMeanAnswer e agg rs q allResponses =
          currency e (double_mean (map (\<lambda>r. token_number (rcontent r)) rs)))"
proof -
  have main: "calculateMeanAnswer e agg rs q allResponses =
     (if list_all (\<lambda>r. numeric_content (rcontent r)) rs then
        (let vs = filter number_gt0 (map (\<lambda>r. token_number (rcontent r)) rs)
         in if vs = [] then ''Unable to calculate mean'' else currency e (double_mean vs))
      else labelled_concatenation rs)"
    using unavailable_falls_back [OF assms(1)] simpleAverage_valid [OF assms(2)] by simp
  have "calculateMeanAnswer e agg rs q allResponses =
          currency e (double_mean (map (\<lambda>r. token_number (rcontent r)) rs))"
    if ne: "rs \<noteq> []"
      and all: "list_all (\<lambda>r. numeric_content (rcontent r) \<and>
                  number_gt0 (token_number (rcontent r))) rs"
  proof -
    from all have num: "list_all (\<lambda>r. numeric_content (rcontent r)) rs"
      and pos: "\<forall>r \<in> set rs. number_gt0 (token_number (rcontent r))"
      by (auto simp: list_all_iff)
    from pos have keep: "filter number_gt0 (map (\<lambda>r. token_number (rcontent r)) rs) =
        map (\<lambda>r. token_number (rcontent r)) rs"
      by (induction rs) auto
    from main num keep ne show ?thesis by (simp add: Let_def)
  qed
  with main show ?thesis by blast
qed

text \<open>The doubles, tokens, means and texts of the worked examples.\<close>

lemmas double_eval =
  binary64_def ilog2_def bit_length.simps pow2_def round_half_even_def floor_rat_numeral Let_def

lemma double_5: "binary64 5 = Num 5"
  by (simp add: double_eval)

lemma double_10: "binary64 10 = Num 10"
  by (simp add: double_eval)

lemma double_15: "binary64 15 = Num 15"
  by (simp add: double_eval)

lemma double_20: "binary64 20 = Num 20"
  by (simp add: double_eval)

lemma double_30: "binary64 30 = Num 30"
  by (simp add: double_eval)

text \<open>
  19.99 is not a double; the nearest one lies below it, and so does the double nearest to
  its sum with 20.
\<close>

lemma double_19_99: "binary64 (1999 / 100) = Num (5626684784446013 / 281474976710656)"
  by (simp add: double_eval)

lemma double_19_99_fixed:
  "binary64 (5626684784446013 / 281474976710656) = Num (5626684784446013 / 281474976710656)"
  by (simp add: double_eval)

lemma double_39_99:
  "binary64 (11256184318659133 / 281474976710656) = Num (2814046079664783 / 70368744177664)"
  by (simp add: double_eval)

lemma double_19_995:
  "binary64 (2814046079664783 / 140737488355328) = Num (2814046079664783 / 140737488355328)"
  by (simp add: double_eval)

lemma double_1_005: "binary64 (201 / 200) = Num (1131529406376837 / 1125899906842624)"
  by (simp add: double_eval)

lemma double_1_005_fixed:
  "binary64 (1131529406376837 / 1125899906842624) = Num (1131529406376837 / 1125899906842624)"
  by (simp add: double_eval)

lemma double_sextillion: "binary64 1000000000000000000000 = Num 1000000000000000000000"
  by (simp add: double_eval)

lemmas token_eval =
  token_number_def firstNumericToken_def isDigitOrComma_def isDigit_def decimal_value_def
  digit_value_def Let_def

lemma token_0: "token_number ''$0'' = Num 0"
  by (simp add: token_eval binary64_def)

lemma token_10: "token_number ''$10'' = Num 10"
  by (simp add: token_eval double_10)

lemma token_20: "token_number ''$20'' = Num 20"
  by (simp add: token_eval double_20)

lemma token_20_00: "token_number ''$20.00'' = Num 20"
  by (simp add: token_eval double_20)

lemma token_19_99: "token_number ''$19.99'' = Num (5626684784446013 / 281474976710656)"
  by (simp add: token_eval double_19_99)

lemma token_1_005: "token_number ''1.005'' = Num (1131529406376837 / 1125899906842624)"
  by (simp add: token_eval double_1_005)

lemma token_sextillion:
  "token_number ''$1,000,000,000,000,000,000,000'' = Num 1000000000000000000000"
  by (simp add: token_eval double_sextillion)

lemma token_padded: "token_number (CHR 0xA0 # ''$10'') = Num 10"
  by (simp add: token_eval double_10)

lemmas mean_eval = double_mean_def number_add_def number_div_def binary64_def [of 0]

lemma mean_10_20: "double_mean [Num 10, Num 20] = Num 15"
  by (simp add: mean_eval double_10 double_15 double_30)

lemma mean_0_10: "double_mean [Num 0, Num 10] = Num 5"
  by (simp add: mean_eval double_10 double_5)

lemma mean_19_99_20:
  "double_mean [Num (5626684784446013 / 281474976710656), Num 20] =
     Num (2814046079664783 / 140737488355328)"
  by (simp add: mean_eval double_19_99_fixed double_39_99 double_19_995)

lemma mean_1_005:
  "double_mean [Num (1131529406376837 / 1125899906842624)] =
     Num (1131529406376837 / 1125899906842624)"
  by (simp add: mean_eval double_1_005_fixed)

lemma mean_sextillion:
  "double_mean [Num 1000000000000000000000] = Num 1000000000000000000000"
  by (simp add: mean_eval double_sextillion)

lemmas currency_eval =
  currency_def two_decimals_def round_def floor_rat_numeral show_nat.simps Let_def

lemma currency_15: "currency e (Num 15) = ''Mean value: $15.00''"
  by (simp add: currency_eval)

lemma currency_5: "currency e (Num 5) = ''Mean value: $5.00''"
  by (simp add: currency_eval)

lemma currency_19_99:
  "currency e (Num (2814046079664783 / 140737488355328)) = ''Mean value: $19.99''"
  by (simp add: currency_eval)

lemma currency_1_00:
  "currency e (Num (1131529406376837 / 1125899906842624)) = ''Mean value: $1.00''"
  by (simp add: currency_eval)

lemma currency_sextillion:
  "currency offline (Num 1000000000000000000000) = ''Mean value: $1e+21''"
  by (simp add: currency_eval offline_def)

lemmas content_eval =
  numeric_content_code trim_def isSpace_def numericPattern_def isDigitOrComma_def isDigit_def
  number_gt0_def Let_def

lemma offline_unavailable: "synthesis_unavailable offline with_meanGPT q rs"
  by (simp add: synthesis_unavailable_def with_meanGPT_def offline_def)

text \<open>
  With the synthesis call failing: \<open>$10\<close> and \<open>$20\<close> give \<open>Mean value: $15.00\<close>, also
  with a no-break space in front; \<open>$19.99\<close> and \<open>$20.00\<close> give \<open>Mean value: $19.99\<close>,
  the mean of the two doubles lying below 19.995; \<open>1.005\<close> gives \<open>Mean value: $1.00\<close>;
  \<open>10 ^ 21\<close> is printed as \<open>1e+21\<close>; and \<open>Paris\<close> with \<open>$20\<close> gives the labelled
  concatenation.
\<close>

theorem fallback_mean_witness:
  "synthesis_unavailable offline with_meanGPT ''What does it cost?'' two_prices \<and>
   list_all isValid two_prices \<and>
   calculateMeanAnswer offline with_meanGPT two_prices ''What does it cost?'' two_prices =
     ''Mean value: $15.00'' \<and>
   calculateMeanAnswer offline with_meanGPT cent_apart ''What does it cost?'' cent_apart =
     ''Mean value: $19.99'' \<and>
   calculateMeanAnswer offline with_meanGPT half_cent ''What does it cost?'' half_cent =
     ''Mean value: $1.00'' \<and>
   calculateMeanAnswer offline with_meanGPT sextillion ''What does it cost?'' sextillion =
     ''Mean value: $1e+21'' \<and>
   calculateMeanAnswer offline with_meanGPT padded_price ''What does it cost?'' padded_price =
     ''Mean value: $15.00'' \<and>
   calculateMeanAnswer offline with_meanGPT word_and_price ''What does it cost?'' two_prices =
     ''Combined response from 2 AIs:\<newline>\<newline>OpenAI ChatGPT: Paris\<newline>\<newline>xAI Grok: $20''"
proof -
  note u = offline_unavailable
  have v: "list_all isValid two_prices" "list_all isValid cent_apart" "list_all isValid half_cent"
    "list_all isValid sextillion" "list_all isValid padded_price" "list_all isValid word_and_price"
    by (simp_all add: two_prices_def cent_apart_def half_cent_def sextillion_def padded_price_def
        word_and_price_def answer_def isValid_def truthy_def)
  from fallback_mean [OF u v(1)]
  have a: "calculateMeanAnswer offline with_meanGPT two_prices ''What does it cost?'' two_prices =
     ''Mean value: $15.00''"
    by (simp add: two_prices_def answer_def content_eval token_10 token_20 mean_10_20 currency_15)
  from fallback_mean [OF u v(2)]
  have b: "calculateMeanAnswer offline with_meanGPT cent_apart ''What does it cost?'' cent_apart =
     ''Mean value: $19.99''"
    by (simp add: cent_apart_def answer_def content_eval token_19_99 token_20_00 mean_19_99_20
        currency_19_99)
  from fallback_mean [OF u v(3)]
  have c: "calculateMeanAnswer offline with_meanGPT half_cent ''What does it cost?'' half_cent =
     ''Mean value: $1.00''"
    by (simp add: half_cent_def answer_def content_eval token_1_005 mean_1_005 currency_1_00)
  from fallback_mean [OF u v(4)]
  have d: "calculateMeanAnswer offline with_meanGPT sextillion ''What does it cost?'' sextillion =
     ''Mean value: $1e+21''"
    by (simp add: sextillion_def answer_def content_eval token_sextillion mean_sextillion
        currency_sextillion)
  from fallback_mean [OF u v(5)]
  have e: "calculateMeanAnswer offline with_meanGPT padded_price ''What does it cost?'' padded_price =
     ''Mean value: $15.00''"
    by (simp add: padded_price_def answer_def content_eval token_padded token_20 mean_10_20
        currency_15)
  from fallback_mean [OF u v(6)]
  have f: "calculateMeanAnswer offline with_meanGPT word_and_price ''What does it cost?'' two_prices =
     ''Combined response from 2 AIs:\<newline>\<newline>OpenAI ChatGPT: Paris\<newline>\<newline>xAI Grok: $20''"
    by (simp add: word_and_price_def answer_def content_eval labelled_concatenation_def
        openai_desc_def grok_desc_def show_nat.simps)
  from u v(1) a b c d e f show ?thesis by (intro conjI)
qed

text \<open>
  The claim as stated fails at \<open>$0\<close> and \<open>$10\<close>: the mean of the two first tokens
  is 5, and the code, which drops the zero, answers 10.
\<close>

theorem fallback_mean_counterexample:
  "calculateMeanAnswer offline without_meanGPT free_and_ten ''What does it cost?'' free_and_ten =
     ''Mean value: $10.00'' \<and>
   currency offline (double_mean [token_number ''$0'', token_number ''$10'']) =
     ''Mean value: $5.00''"
proof -
  have a: "calculateMeanAnswer offline without_meanGPT free_and_ten ''What does it cost?'' free_and_ten =
     simpleAverage offline free_and_ten"
    by (simp add: calculateMeanAnswer_def without_meanGPT_def)
  have n: "areNumericResponses [''$0'', ''$10'']"
    by (simp add: areNumericResponses_def trim_def isSpace_def numericPattern_def
        isDigitOrComma_def isDigit_def Let_def)
  have x0: "extractNumber ''$0'' = Num 0"
    by (simp add: extractNumber_def firstNumericToken_def isDigitOrComma_def isDigit_def
        parseFloat_def digits_value_def digit_value_def binary64_def Let_def)
  have x10: "extractNumber ''$10'' = Num 10"
    by (simp add: extractNumber_def firstNumericToken_def isDigitOrComma_def isDigit_def
        parseFloat_def digits_value_def digit_value_def double_10 Let_def)
  have t: "toFixed2 offline (Num 10) = ''10.00''"
    by (simp add: toFixed2_def floor_rat_numeral show_nat_big show_nat_small Let_def)
  have m: "calculateNumericMean offline [''$0'', ''$10''] = ''Mean value: $10.00''"
    by (simp add: calculateNumericMean_def x0 x10 number_gt0_def number_add_def number_div_def
        binary64_def [of 0] double_10 t)
  have b: "simpleAverage offline free_and_ten = ''Mean value: $10.00''"
    by (simp add: simpleAverage_def free_and_ten_def answer_def n m)
  have c: "currency offline (double_mean [token_number ''$0'', token_number ''$10'']) =
     ''Mean value: $5.00''"
    by (simp add: token_0 token_10 mean_0_10 currency_5)
  from a b c show ?thesis by simp
qed

subsection \<open>One turn through the router\<close>

lemma sendMessage_shape:
  "\<exists>r. sendMessage e p msgs opts = Inr r \<and> provider r = pprovider p \<and>
     (call_failed e p msgs opts \<longrightarrow> rcontent r = [] \<and> truthy (error r)) \<and>
     (\<not> call_failed e p msgs opts \<longrightarrow> error r = None)"
  using sendMessage_OpenAI [of p e msgs opts] sendMessage_Anthropic [of p e msgs opts]
    sendMessage_Grok [of p e msgs opts] sendMessage_Gemini [of p e msgs opts]
  by (cases "kind p") blast+

lemma lookup_in_memory:
  "conversations cm convId = Some c \<Longrightarrow> lookupOrLoad cm t convId = (Some c, cm)"
  by (simp add: lookupOrLoad_def)

lemma handleDirectResponse_in_memory:
  assumes "conversations cm convId = Some c"
  shows "\<exists>text calls2.
     handleDirectResponse e r cm convId userMessage = (Inr text, cm, calls2) \<and>
     AggregatorCall \<notin> set calls2 \<and>
     (direct_call_errors e (orchestrator r)
        (masterSystemPrompt (replicate 8 CHR '' '') # messages c @ [userTurn userMessage]) \<longrightarrow>
      (\<exists>m. m \<noteq> [] \<and> text = notice @ m))"
proof -
  let ?msgs = "masterSystemPrompt (replicate 8 CHR '' '') # messages c @ [userTurn userMessage]"
  have ctx: "getMasterContext cm (now e) convId =
      (masterSystemPrompt (replicate 8 CHR '' '') # messages c, cm)"
    using assms by (simp add: getMasterContext_def lookup_in_memory)
  show ?thesis
  proof (cases "map_of (orchestrator r) ''openai''")
    case None
    then show ?thesis
      using ctx
      by (simp add: handleDirectResponse_def querySingleProvider_def notConfigured_def
          truthy_def notice_def direct_call_errors_def)
  next
    case (Some p)
    from sendMessage_shape [of e p ?msgs None]
    obtain d where d: "sendMessage e p ?msgs None = Inr d"
      and f: "call_failed e p ?msgs None \<longrightarrow> rcontent d = [] \<and> truthy (error d)"
      by blast
    have t: "truthy (error d) \<Longrightarrow> \<exists>m. m \<noteq> [] \<and> the (error d) = m"
      by (auto simp: truthy_def split: option.splits)
    from Some d f t show ?thesis
      using ctx
      by (auto simp: handleDirectResponse_def querySingleProvider_def notice_def
          direct_call_errors_def)
  qed
qed

lemma shouldForward_no_aggregator:
  "shouldForwardToAIs e cm convId userMessage = (rt, calls1) \<Longrightarrow> AggregatorCall \<notin> set calls1"
  by (auto simp: shouldForwardToAIs_def split: option.splits if_splits sum.splits)

lemma processMessage_direct_run:
  assumes run: "processMessage e r convId userMessage = (Inr res, r', evs)"
    and direct: "\<not> shouldForward (decision res)"
  shows "\<exists>cm2 calls1 text cm3 calls2.
     addMessage (ensured e (contextManager r) convId) (now e) convId
       \<lparr>role = User, content = userMessage, timestamp = Some (now e)\<rparr> = Inr cm2 \<and>
     shouldForwardToAIs e cm2 convId userMessage = (decision res, calls1) \<and>
     handleDirectResponse e r cm2 convId userMessage = (Inr text, cm3, calls2) \<and>
     res = \<lparr>response = text, conversationId = convId, decision = decision res,
            aggregatedData = None\<rparr> \<and>
     r' = r\<lparr>contextManager := cm3\<rparr> \<and> evs = calls1 @ calls2"
proof -
  let ?userMsg = "\<lparr>role = User, content = userMessage, timestamp = Some (now e)\<rparr>"
  let ?cm1 = "ensured e (contextManager r) convId"
  obtain cm2 where add: "addMessage ?cm1 (now e) convId ?userMsg = Inr cm2"
    using run by (cases "addMessage ?cm1 (now e) convId ?userMsg")
      (auto simp: processMessage_def ensured_def Let_def)
  obtain rt calls1 where sf: "shouldForwardToAIs e cm2 convId userMessage = (rt, calls1)"
    by (cases "shouldForwardToAIs e cm2 convId userMessage")
  obtain direct_result cm3 calls2 where
    hd: "handleDirectResponse e r cm2 convId userMessage = (direct_result, cm3, calls2)"
    by (cases "handleDirectResponse e r cm2 convId userMessage") auto
  have not_forward: "\<not> shouldForward rt"
  proof
    assume fw: "shouldForward rt"
    from run add sf fw have "decision res = rt"
      by (auto simp: processMessage_def ensured_def Let_def
          split: sum.splits prod.splits)
    with fw direct show False by simp
  qed
  from run add sf hd not_forward show ?thesis
    by (auto simp: processMessage_def ensured_def Let_def split: sum.splits)
qed

lemma ensured_present:
  "conversations cm convId = Some c \<Longrightarrow> ensured e cm convId = cm"
  by (simp add: ensured_def getConversation_def)

lemma ensured_empty_id:
  assumes "conversations cm [] = None"
  shows "conversations (ensured e cm []) [] = None"
  using assms
  by (simp add: ensured_def getConversation_def createConversation_def generateId_def Let_def)

lemma ensured_absent:
  assumes "conversations cm convId = None" and "convId \<noteq> []"
  shows "ensured e cm convId =
        cm\<lparr>conversations := (conversations cm)(convId \<mapsto>
             \<lparr>cid = convId, messages = [],
              aiContexts = [''openai'' \<mapsto> [], ''anthropic'' \<mapsto> [], ''gemini'' \<mapsto> [], ''grok'' \<mapsto> []],
              createdAt = now e, updatedAt = now e\<rparr>)\<rparr>"
  using assms
  by (simp add: ensured_def getConversation_def createConversation_def Let_def)

lemma addMessage_appended:
  assumes "conversations cm convId = Some c0"
    and "addMessage cm (now e) convId \<lparr>role = User, content = userMessage, timestamp = Some (now e)\<rparr> = Inr cm2"
  shows "\<exists>c2. cm2 = cm\<lparr>conversations := (conversations cm)(convId \<mapsto> c2)\<rparr> \<and>
     aiContexts c2 = aiContexts c0 \<and> messages c2 = appended e userMessage (messages c0)"
proof -
  let ?m = "\<lparr>role = User, content = userMessage, timestamp = Some (now e)\<rparr>"
  let ?c1 = "c0\<lparr>messages := messages c0 @ [?m], updatedAt := now e\<rparr>"
  have cm2: "cm2 = cm\<lparr>conversations := (conversations cm)(convId \<mapsto> trimContextIfNeeded ?c1)\<rparr>"
    using assms by (simp add: addMessage_def)
  have shape: "messages (trimContextIfNeeded ?c1) = appended e userMessage (messages c0)"
  proof (cases "length (messages c0 @ [?m]) > 20")
    case True
    then have "length (messages ?c1) > 20" by simp
    from trim_over [OF this] True show ?thesis by (simp add: appended_def)
  next
    case False
    then have "length (messages ?c1) \<le> 20" by simp
    from trim_under [OF this] False show ?thesis by (simp add: appended_def)
  qed
  have "aiContexts (trimContextIfNeeded ?c1) = aiContexts c0" by simp
  with cm2 shape show ?thesis by blast
qed

lemma offline_now: "now offline = 0" and offline_rnd: "rnd offline = ''k3j9x0q2z''"
  by (simp_all add: offline_def)

lemma offline_classify: "classify offline msgs u = Inl (Error (Some ''fetch failed''))"
  by (simp add: classify_def offline_def)

lemma who_fallback: "fallbackRouting ''Who are you?'' = direct_fallback"
  by (simp add: fallbackRouting_def toLowerCase_def toLowerChar_def Let_def direct_fallback_def)

lemma openai_only_providers:
  "initializeProviders openai_only = [(''openai'', OpenAIProvider ''sk-test'' ''gpt-4o-mini'')]"
  by (simp add: initializeProviders_def configured_def openai_only_def no_keys_def or_else_def)

lemma offline_openai:
  "sendMessage offline (OpenAIProvider ''sk-test'' ''gpt-4o-mini'') msgs None =
     Inr \<lparr>provider = \<lparr>name = ''openai'', displayName = ''OpenAI ChatGPT'', model = ''gpt-4o-mini''\<rparr>,
          rcontent = [], error = Some ''fetch failed'', rtimestamp = 0, tokensUsed = None\<rparr>"
  by (simp add: sendMessage_def OpenAIProvider_def OpenAI_respond_def handleError_def
      or_else_def offline_def)

lemma offline_direct:
  assumes "conversations cm convId = Some c" and "orchestrator r = initializeProviders openai_only"
  shows "handleDirectResponse offline r cm convId u =
     (Inr ''MeanGPT: I encountered an error processing your request: fetch failed'', cm,
      [ProviderCall ''openai''])"
  using assms
  by (simp add: handleDirectResponse_def getMasterContext_def lookup_in_memory
      querySingleProvider_def openai_only_providers offline_openai truthy_def)

lemma processMessage_direct_eval:
  assumes "addMessage (ensured e (contextManager r) convId) (now e) convId
             \<lparr>role = User, content = userMessage, timestamp = Some (now e)\<rparr> = Inr cm2"
    and "shouldForwardToAIs e cm2 convId userMessage = (rt, calls1)"
    and "\<not> shouldForward rt"
    and "handleDirectResponse e r cm2 convId userMessage = (Inr reply, cm3, calls2)"
  shows "processMessage e r convId userMessage =
     (Inr \<lparr>response = reply, conversationId = convId, decision = rt, aggregatedData = None\<rparr>,
      r\<lparr>contextManager := cm3\<rparr>, calls1 @ calls2)"
  using assms by (simp add: processMessage_def ensured_def Let_def)

lemma offline_direct_run:
  assumes orch: "orchestrator r = initializeProviders openai_only"
    and add: "addMessage (ensured offline (contextManager r) convId) 0 convId
             \<lparr>role = User, content = ''Who are you?'', timestamp = Some 0\<rparr> = Inr cm2"
    and c: "conversations cm2 convId = Some c" and ne: "messages c \<noteq> []"
  shows "processMessage offline r convId ''Who are you?'' =
     (Inr (error_reply convId), r\<lparr>contextManager := cm2\<rparr>,
      [ClassificationCall, ProviderCall ''openai''])"
proof -
  have sf: "shouldForwardToAIs offline cm2 convId ''Who are you?'' =
      (direct_fallback, [ClassificationCall])"
    using c ne by (simp add: shouldForwardToAIs_def offline_classify who_fallback)
  have nf: "\<not> shouldForward direct_fallback" by (simp add: direct_fallback_def)
  have add': "addMessage (ensured offline (contextManager r) convId) (now offline) convId
             \<lparr>role = User, content = ''Who are you?'', timestamp = Some (now offline)\<rparr> = Inr cm2"
    using add by (simp add: offline_now)
  from processMessage_direct_eval [OF add' sf nf offline_direct [OF c orch]]
  show ?thesis by (simp add: error_reply_def)
qed

lemma run_second:
  "processMessage offline router1 ''c1'' ''Who are you?'' =
     (Inr (error_reply ''c1''), router1\<lparr>contextManager := asked_second\<rparr>,
      [ClassificationCall, ProviderCall ''openai''])"
proof -
  have orch: "orchestrator router1 = initializeProviders openai_only"
    by (simp add: router1_def)
  have add: "addMessage (ensured offline (contextManager router1) ''c1'') 0 ''c1''
             \<lparr>role = User, content = ''Who are you?'', timestamp = Some 0\<rparr> = Inr asked_second"
    by (simp add: router1_def cm1_def ensured_def getConversation_def addMessage_def
        trimContextIfNeeded_def maxMessagesPerContext_def asked_second_def who_turn_def)
  have "\<exists>c. conversations asked_second ''c1'' = Some c \<and> messages c \<noteq> []"
    by (simp add: asked_second_def)
  then obtain c where c: "conversations asked_second ''c1'' = Some c" and ne: "messages c \<noteq> []"
    by blast
  from offline_direct_run [OF orch add c ne] show ?thesis .
qed

text \<open>
  Claim C9, amended. Whenever \<^verbatim>\<open>processMessage\<close> returns with a routing decision that
  does not forward: no aggregated data is returned and the aggregator is not called; the
  orchestrator, the aggregator, the files and all other conversations are as before; the
  provider contexts of the conversation are unchanged (all empty when the conversation was
  created by this turn); the master transcript is the old one after \<^verbatim>\<open>addMessage\<close> of the
  user turn, that is, the turn appended and, above 20 entries, the oldest excess replaced
  by the summary message; and when the call to the designated provider errors, the
  response text starts with \<open>MeanGPT: \<close>.
\<close>

theorem direct_branch_frame:
  assumes run: "processMessage e r convId userMessage = (Inr res, r', evs)"
    and direct: "\<not> shouldForward (decision res)"
  shows "aggregatedData res = None \<and> AggregatorCall \<notin> set evs \<and>
    orchestrator r' = orchestrator r \<and> aggregator r' = aggregator r \<and>
    fileStorage (contextManager r') = fileStorage (contextManager r) \<and>
    (\<forall>other. other \<noteq> convId \<longrightarrow>
       conversations (contextManager r') other = conversations (contextManager r) other) \<and>
    (\<exists>c'. conversations (contextManager r') convId = Some c' \<and>
       (case conversations (contextManager r) convId of
          Some c \<Rightarrow> aiContexts c' = aiContexts c \<and>
                    messages c' = appended e userMessage (messages c)
        | None \<Rightarrow> (\<forall>p msgs. aiContexts c' p = Some msgs \<longrightarrow> msgs = []) \<and>
                  messages c' = appended e userMessage []) \<and>
       (direct_call_errors e (orchestrator r)
          (masterSystemPrompt (replicate 8 CHR '' '') # messages c' @ [userTurn userMessage]) \<longrightarrow>
        prefix ''MeanGPT: '' (response res)))"
proof -
  let ?cm0 = "contextManager r"
  let ?cm1 = "ensured e ?cm0 convId"
  from processMessage_direct_run [OF run direct]
  obtain cm2 calls1 reply cm3 calls2 where
    add: "addMessage ?cm1 (now e) convId
            \<lparr>role = User, content = userMessage, timestamp = Some (now e)\<rparr> = Inr cm2"
    and sf: "shouldForwardToAIs e cm2 convId userMessage = (decision res, calls1)"
    and hdr: "handleDirectResponse e r cm2 convId userMessage = (Inr reply, cm3, calls2)"
    and res: "res = \<lparr>response = reply, conversationId = convId, decision = decision res,
                      aggregatedData = None\<rparr>"
    and r': "r' = r\<lparr>contextManager := cm3\<rparr>"
    and evs: "evs = calls1 @ calls2"
    by blast
  from add obtain c0 where c0: "conversations ?cm1 convId = Some c0"
    by (auto simp: addMessage_def split: option.splits)
  from addMessage_appended [OF c0 add]
  obtain c2 where cm2: "cm2 = ?cm1\<lparr>conversations := (conversations ?cm1)(convId \<mapsto> c2)\<rparr>"
    and ai: "aiContexts c2 = aiContexts c0"
    and ms: "messages c2 = appended e userMessage (messages c0)"
    by blast
  have c2: "conversations cm2 convId = Some c2" by (simp add: cm2)
  from handleDirectResponse_in_memory [OF c2, of e r userMessage] hdr
  have cm3: "cm3 = cm2" and no_agg: "AggregatorCall \<notin> set calls2"
    and errs: "direct_call_errors e (orchestrator r)
        (masterSystemPrompt (replicate 8 CHR '' '') # messages c2 @ [userTurn userMessage]) \<longrightarrow>
        (\<exists>m. m \<noteq> [] \<and> reply = notice @ m)"
    by auto
  have agg: "aggregatedData res = None" by (subst res) simp
  have resp: "response res = reply" by (subst res) simp
  have ev: "AggregatorCall \<notin> set evs"
    using shouldForward_no_aggregator [OF sf] no_agg evs by simp
  have same: "orchestrator r' = orchestrator r \<and> aggregator r' = aggregator r"
    by (simp add: r')
  have cmr: "contextManager r' = cm2" by (simp add: r' cm3)
  have pre: "direct_call_errors e (orchestrator r)
        (masterSystemPrompt (replicate 8 CHR '' '') # messages c2 @ [userTurn userMessage]) \<longrightarrow>
        prefix ''MeanGPT: '' (response res)"
    using errs resp by (auto simp: notice_def)
  show ?thesis
  proof (cases "conversations ?cm0 convId")
    case (Some c)
    then have e1: "?cm1 = ?cm0" by (rule ensured_present)
    with c0 Some have "c0 = c" by simp
    with agg ev same pre ai ms show ?thesis
      by (simp add: cmr cm2 e1 Some c2)
  next
    case None
    have ne: "convId \<noteq> []"
    proof
      assume "convId = []"
      with None ensured_empty_id [of "contextManager r" e] c0 show False by simp
    qed
    from ensured_absent [OF None ne, of e]
    have e1: "?cm1 = ?cm0\<lparr>conversations := (conversations ?cm0)(convId \<mapsto>
             \<lparr>cid = convId, messages = [],
              aiContexts = [''openai'' \<mapsto> [], ''anthropic'' \<mapsto> [], ''gemini'' \<mapsto> [], ''grok'' \<mapsto> []],
              createdAt = now e, updatedAt = now e\<rparr>)\<rparr>"
      by simp
    with c0 have c0': "messages c0 = []"
      and ai0: "aiContexts c0 = [''openai'' \<mapsto> [], ''anthropic'' \<mapsto> [], ''gemini'' \<mapsto> [], ''grok'' \<mapsto> []]"
      by auto
    have empty: "\<forall>p msgs. aiContexts c2 p = Some msgs \<longrightarrow> msgs = []"
      unfolding ai ai0 using fresh_all_empty by blast
    have others: "\<forall>other. other \<noteq> convId \<longrightarrow>
        conversations (contextManager r') other = conversations ?cm0 other"
      by (simp add: cmr cm2 e1)
    have fs: "fileStorage (contextManager r') = fileStorage ?cm0"
      by (simp add: cmr cm2 e1)
    have here: "conversations (contextManager r') convId = Some c2"
      by (simp add: cmr c2)
    from agg ev same pre ms c0' empty others fs here None show ?thesis
      by simp
  qed
qed

text \<open>
  Offline, in the conversation one turn old, \<open>Who are you?\<close> is answered directly with
  the error notice; the transcript has the two user turns and the OpenAI context is
  still empty.
\<close>

theorem direct_branch_frame_witness:
  "processMessage offline router1 ''c1'' ''Who are you?'' =
     (Inr (error_reply ''c1''), router1\<lparr>contextManager := asked_second\<rparr>,
      [ClassificationCall, ProviderCall ''openai'']) \<and>
   \<not> shouldForward (decision (error_reply ''c1'')) \<and>
   aggregatedData (error_reply ''c1'') = None \<and>
   AggregatorCall \<notin> set [ClassificationCall, ProviderCall ''openai''] \<and>
   (\<exists>c'. conversations asked_second ''c1'' = Some c' \<and>
      aiContexts c' = [''openai'' \<mapsto> []] \<and>
      messages c' = [userTurn ''What is 2+2?'', who_turn] \<and>
      prefix ''MeanGPT: '' (response (error_reply ''c1'')))"
proof -
  have direct: "\<not> shouldForward (decision (error_reply ''c1''))"
    by (simp add: error_reply_def direct_fallback_def)
  have errs: "direct_call_errors offline (orchestrator router1) msgs" for msgs
    by (simp add: direct_call_errors_def router1_def openai_only_providers call_failed_def
        OpenAIProvider_def offline_def)
  have old: "conversations (contextManager router1) ''c1'' =
      Some \<lparr>cid = ''c1'', messages = [userTurn ''What is 2+2?''],
            aiContexts = [''openai'' \<mapsto> []], createdAt = 0, updatedAt = 0\<rparr>"
    by (simp add: router1_def cm1_def)
  note frame = direct_branch_frame [OF run_second direct]
  from frame have a: "aggregatedData (error_reply ''c1'') = None"
    and b: "AggregatorCall \<notin> set [ClassificationCall, ProviderCall ''openai'']"
    by blast+
  from frame obtain c' where
    c': "conversations (contextManager (router1\<lparr>contextManager := asked_second\<rparr>)) ''c1'' = Some c'"
    and rest: "(case conversations (contextManager router1) ''c1'' of
          Some c \<Rightarrow> aiContexts c' = aiContexts c \<and>
                    messages c' = appended offline ''Who are you?'' (messages c)
        | None \<Rightarrow> (\<forall>p msgs. aiContexts c' p = Some msgs \<longrightarrow> msgs = []) \<and>
                  messages c' = appended offline ''Who are you?'' [])"
    and pre: "direct_call_errors offline (orchestrator router1)
          (masterSystemPrompt (replicate 8 CHR '' '') # messages c' @ [userTurn ''Who are you?'']) \<longrightarrow>
        prefix ''MeanGPT: '' (response (error_reply ''c1''))"
    by auto
  from rest have "aiContexts c' = [''openai'' \<mapsto> []] \<and>
      messages c' = [userTurn ''What is 2+2?'', who_turn]"
    by (simp add: old appended_def offline_now who_turn_def)
  with c' pre errs have "\<exists>c'. conversations asked_second ''c1'' = Some c' \<and>
      aiContexts c' = [''openai'' \<mapsto> []] \<and>
      messages c' = [userTurn ''What is 2+2?'', who_turn] \<and>
      prefix ''MeanGPT: '' (response (error_reply ''c1''))"
    by simp
  with run_second direct a b show ?thesis by (intro conjI)
qed

text \<open>
  The claim as stated, that the master transcript changes only by the appended user
  message, fails at a transcript of twenty entries: the turn removes the oldest entry and
  puts a summary message in front.
\<close>

theorem direct_branch_counterexample:
  "processMessage offline router20 ''c1'' ''Who are you?'' =
     (Inr (error_reply ''c1''), router20\<lparr>contextManager := asked_at_cap\<rparr>,
      [ClassificationCall, ProviderCall ''openai'']) \<and>
   \<not> shouldForward (decision (error_reply ''c1'')) \<and>
   conversations (contextManager router20) ''c1'' = Some full_conversation \<and>
   conversations asked_at_cap ''c1'' = Some (full_conversation\<lparr>messages := capped_transcript\<rparr>) \<and>
   capped_transcript \<noteq> messages full_conversation @ [who_turn]"
proof -
  have orch: "orchestrator router20 = initializeProviders openai_only"
    by (simp add: router20_def)
  have add: "addMessage (ensured offline (contextManager router20) ''c1'') 0 ''c1''
             \<lparr>role = User, content = ''Who are you?'', timestamp = Some 0\<rparr> = Inr asked_at_cap"
    by (simp add: router20_def cm20_def full_conversation_def twenty_def ensured_def
        getConversation_def addMessage_def trimContextIfNeeded_def maxMessagesPerContext_def
        createSummary_def userTurn_def asked_at_cap_def capped_transcript_def who_turn_def Let_def)
  have stored: "conversations asked_at_cap ''c1'' =
      Some (full_conversation\<lparr>messages := capped_transcript\<rparr>)"
    by (simp add: asked_at_cap_def)
  have ne: "messages (full_conversation\<lparr>messages := capped_transcript\<rparr>) \<noteq> []"
    by (simp add: capped_transcript_def)
  have direct: "\<not> shouldForward (decision (error_reply ''c1''))"
    by (simp add: error_reply_def direct_fallback_def)
  have old: "conversations (contextManager router20) ''c1'' = Some full_conversation"
    by (simp add: router20_def cm20_def)
  have differ: "capped_transcript \<noteq> messages full_conversation @ [who_turn]"
    by (simp add: capped_transcript_def full_conversation_def twenty_def userTurn_def)
  from offline_direct_run [OF orch add stored ne] direct old stored differ
  show ?thesis by (intro conjI)
qed

text \<open>
  Claim C3, as the code runs it. \<^verbatim>\<open>processMessage\<close> appends the user message before it asks
  for the routing decision, so in a brand-new conversation the transcript is not empty
  when \<^verbatim>\<open>shouldForwardToAIs\<close> looks at it: the classification call is issued. Offline, a
  fresh router answers the first message \<open>Who are you?\<close> of the new conversation \<open>c1\<close>
  directly, by the fallback, where the claim says it forwards without a call.
\<close>

theorem first_message_is_classified:
  "processMessage offline fresh_router ''c1'' ''Who are you?'' =
     (Inr (error_reply ''c1''), fresh_router\<lparr>contextManager := asked_first\<rparr>,
      [ClassificationCall, ProviderCall ''openai''])"
proof -
  have cm0: "contextManager fresh_router = new_ContextManager fs0 True"
    and orch: "orchestrator fresh_router = initializeProviders openai_only"
    by (simp_all add: fresh_router_def new_MeanGPTRouter_def)
  have add: "addMessage (ensured offline (contextManager fresh_router) ''c1'') (now offline) ''c1''
               \<lparr>role = User, content = ''Who are you?'', timestamp = Some (now offline)\<rparr> =
             Inr asked_first"
    by (simp add: cm0 ensured_def getConversation_def createConversation_def
        new_ContextManager_def addMessage_def Let_def trimContextIfNeeded_def
        maxMessagesPerContext_def offline_now offline_rnd asked_first_def)
  have "\<exists>c. conversations asked_first ''c1'' = Some c \<and> messages c \<noteq> []"
    by (simp add: asked_first_def)
  then obtain c where c: "conversations asked_first ''c1'' = Some c" and ne: "messages c \<noteq> []"
    by blast
  have sf: "shouldForwardToAIs offline asked_first ''c1'' ''Who are you?'' =
      (direct_fallback, [ClassificationCall])"
    using c ne by (simp add: shouldForwardToAIs_def offline_classify who_fallback)
  have nf: "\<not> shouldForward direct_fallback" by (simp add: direct_fallback_def)
  from processMessage_direct_eval [OF add sf nf offline_direct [OF c orch]]
  show ?thesis by (simp add: error_reply_def)
qed

end
